theory Spec2Isabelle
  imports
    Main
    "HOL-Library.Sublist"
    "HOL-Library.List_Lexorder"
    "HOL-Library.Char_ord"
begin

section \<open>Strings, as the script uses them\<close>

text \<open>
  A Python \<open>str\<close> is modelled as a \<open>string\<close>: a list of characters, each a code point
  below 256. On that range \<open>str.isspace\<close> (used by \<open>str.strip\<close> and by the
  regular expression class \<open>\s\<close>) holds of the code points 9 to 13, 28 to 32, 133 and 160,
  and \<open>\d\<close> holds of the ten ASCII digits.
\<close>

definition is_space :: "char \<Rightarrow> bool" where
  "is_space c \<longleftrightarrow> (of_char c :: nat) \<in> {9, 10, 11, 12, 13, 28, 29, 30, 31, 32, 133, 160}"

definition is_digit :: "char \<Rightarrow> bool" where
  "is_digit c \<longleftrightarrow> 48 \<le> (of_char c :: nat) \<and> (of_char c :: nat) \<le> 57"

definition digit_val :: "char \<Rightarrow> nat" where
  "digit_val c = of_char c - 48"

definition digit_char :: "nat \<Rightarrow> char" where
  "digit_char d = ''0123456789'' ! d"

text \<open>\<open>s.strip()\<close>: leading and trailing whitespace removed.\<close>

definition strip :: "string \<Rightarrow> string" where
  "strip s = rev (dropWhile is_space (rev (dropWhile is_space s)))"

text \<open>\<open>s.startswith(p)\<close>, \<open>s.endswith(p)\<close> and \<open>p in s\<close> on strings.\<close>

definition startswith :: "string \<Rightarrow> string \<Rightarrow> bool" where
  "startswith s p = prefix p s"

definition endswith :: "string \<Rightarrow> string \<Rightarrow> bool" where
  "endswith s p = suffix p s"

definition contains :: "string \<Rightarrow> string \<Rightarrow> bool" where
  "contains s needle = sublist needle s"

text \<open>
  The decimal numeral of a natural number, and the value of a string of decimal digits.
\<close>

fun str_nat :: "nat \<Rightarrow> string" where
  "str_nat n = (if n < 10 then [digit_char n] else str_nat (n div 10) @ [digit_char (n mod 10)])"

declare str_nat.simps [simp del]

definition digits_value :: "string \<Rightarrow> nat" where
  "digits_value n = foldl (\<lambda>a c. 10 * a + digit_val c) 0 n"

section \<open>Exceptions\<close>

text \<open>
  Every exception the script can raise is a value; a function that can raise returns
  \<open>exn + 'a\<close>, with \<open>Inl\<close> the exception. The string is the exception's message,
  what \<open>str(exc)\<close> prints.
\<close>

datatype exn =
    RuntimeError string
  | ValueError string
  | TypeError string
  | KeyError string
  | AttributeError string
  | AssertionError
  | IndexError string
  | TransportError string


section \<open>Conversions between integers and strings\<close>

text \<open>
  Python's integers are unbounded, but the script needs Python 3.11 (it imports
  \<open>tomllib\<close>), where a conversion between \<open>int\<close> and \<open>str\<close> of more than
  \<open>sys.get_int_max_str_digits()\<close> digits, 4300 unless the interpreter is told otherwise,
  raises \<open>ValueError\<close>.

  \<open>int(n)\<close> on a run of decimal digits: the digits of the string are counted, leading
  zeros included. The function is applied to digit runs only.
\<close>

definition int_max_str_digits :: nat where
  "int_max_str_digits = 4300"

definition int_limit_message :: "nat \<Rightarrow> string" where
  "int_limit_message k =
     ''Exceeds the limit (4300 digits) for integer string conversion: value has '' @ str_nat k
     @ '' digits; use sys.set_int_max_str_digits() to increase the limit''"

definition str_limit_message :: string where
  "str_limit_message =
     ''Exceeds the limit (4300 digits) for integer string conversion; ''
     @ ''use sys.set_int_max_str_digits() to increase the limit''"

definition py_int :: "string \<Rightarrow> exn + int" where
  "py_int n =
     (if length n > int_max_str_digits then Inl (ValueError (int_limit_message (length n)))
      else Inr (int (digits_value n)))"

text \<open>
  \<open>str(i)\<close>, which is also what an f-string prints for an integer: the digits of the
  result are counted, the sign is not.
\<close>

definition str_int :: "int \<Rightarrow> exn + string" where
  "str_int i =
     (if length (str_nat (nat \<bar>i\<bar>)) > int_max_str_digits then Inl (ValueError str_limit_message)
      else Inr (if i < 0 then CHR ''-'' # str_nat (nat (- i)) else str_nat (nat i)))"

text \<open>
  A comprehension over a list with a function that can raise: the first exception ends
  it.
\<close>

fun map_exn :: "('a \<Rightarrow> exn + 'b) \<Rightarrow> 'a list \<Rightarrow> exn + 'b list" where
  "map_exn f [] = Inr []"
| "map_exn f (x # xs) =
     (case f x of
        Inl e \<Rightarrow> Inl e
      | Inr y \<Rightarrow> (case map_exn f xs of Inl e \<Rightarrow> Inl e | Inr ys \<Rightarrow> Inr (y # ys)))"

section \<open>Version keys and their comparison\<close>

text \<open>
  \<open>re.findall(r"\d+", s)\<close>: the scan goes left to right; at a digit the match takes the
  whole run of digits that starts there and the scan resumes behind it, elsewhere the scan
  moves on by one character.
\<close>

function findall_digits :: "string \<Rightarrow> string list" where
  "findall_digits [] = []"
| "findall_digits (c # cs) =
     (if is_digit c then (c # takeWhile is_digit cs) # findall_digits (dropWhile is_digit cs)
      else findall_digits cs)"
  by pat_completeness auto
termination
  by (relation "measure length") (auto simp: less_Suc_eq_le length_dropWhile_le)

definition parse_version_key :: "string \<Rightarrow> exn + int list" where
  "parse_version_key version_str =
     (let nums = findall_digits version_str
      in if nums = [] then Inr [0] else map_exn py_int nums)"

text \<open>
  Python compares tuples by the first position where they differ; when one is a prefix of
  the other, the lengths decide.
\<close>

fun tuple_lt :: "int list \<Rightarrow> int list \<Rightarrow> bool" where
  "tuple_lt [] [] = False"
| "tuple_lt [] (y # ys) = True"
| "tuple_lt (x # xs) [] = False"
| "tuple_lt (x # xs) (y # ys) = (if x = y then tuple_lt xs ys else x < y)"

fun tuple_gt :: "int list \<Rightarrow> int list \<Rightarrow> bool" where
  "tuple_gt [] [] = False"
| "tuple_gt [] (y # ys) = False"
| "tuple_gt (x # xs) [] = True"
| "tuple_gt (x # xs) (y # ys) = (if x = y then tuple_gt xs ys else x > y)"

definition compare_versions :: "string \<Rightarrow> string \<Rightarrow> exn + int" where
  "compare_versions a b =
     (case parse_version_key a of
        Inl e \<Rightarrow> Inl e
      | Inr ka \<Rightarrow>
          (case parse_version_key b of
             Inl e \<Rightarrow> Inl e
           | Inr kb \<Rightarrow> Inr (if tuple_lt ka kb then - 1 else if tuple_gt ka kb then 1 else 0)))"

section \<open>Constraints\<close>

record Constraint =
  op :: string
  version :: string

text \<open>
  \<open>expand_semver_compat\<close>. The f-strings print their integers from left to right.
\<close>

definition expand_semver_compat :: "string \<Rightarrow> string \<Rightarrow> exn + Constraint list" where
  "expand_semver_compat opr ver =
     (case parse_version_key ver of
        Inl e \<Rightarrow> Inl e
      | Inr key \<Rightarrow>
          (let major = (if length key > 0 then key ! 0 else 0);
               minor = (if length key > 1 then key ! 1 else 0);
               upper =
                 (if opr = ''~'' then
                    (case str_int major of
                       Inl e \<Rightarrow> Inl e
                     | Inr a \<Rightarrow>
                         (case str_int (minor + 1) of
                            Inl e \<Rightarrow> Inl e
                          | Inr b \<Rightarrow> Inr (a @ ''.'' @ b @ ''.0'')))
                  else if major \<noteq> 0 then
                    (case str_int (major + 1) of Inl e \<Rightarrow> Inl e | Inr a \<Rightarrow> Inr (a @ ''.0.0''))
                  else
                    (case str_int (minor + 1) of Inl e \<Rightarrow> Inl e | Inr b \<Rightarrow> Inr (''0.'' @ b @ ''.0'')))
           in case upper of
                Inl e \<Rightarrow> Inl e
              | Inr u \<Rightarrow> Inr [\<lparr>op = ''>='', version = ver\<rparr>, \<lparr>op = ''<'', version = u\<rparr>]))"

text \<open>
  \<open>inner.split(",", 1)\<close>: at most one split, at the first comma.
\<close>

definition split_comma_once :: "string \<Rightarrow> string list" where
  "split_comma_once s =
     (if CHR '','' \<in> set s
      then [takeWhile (\<lambda>c. c \<noteq> CHR '','') s, tl (dropWhile (\<lambda>c. c \<noteq> CHR '','') s)]
      else [s])"

text \<open>
  \<open>re.split(r"\s+|\s*,\s*", s)\<close>. At a whitespace character the first alternative
  matches the whole run of whitespace; at a comma the second alternative matches the comma
  and the whitespace behind it (a comma with whitespace before it is never reached by the
  second alternative's leading \<open>\s*\<close>, as the first alternative has taken that
  whitespace). Every match ends the current piece; the pieces are returned, empty ones
  included.
\<close>

function re_split_parts :: "string \<Rightarrow> string \<Rightarrow> string list" where
  "re_split_parts acc [] = [acc]"
| "re_split_parts acc (c # cs) =
     (if is_space c \<or> c = CHR '','' then acc # re_split_parts [] (dropWhile is_space cs)
      else re_split_parts (acc @ [c]) cs)"
  by pat_completeness auto
termination
  by (relation "measure (\<lambda>(acc, s). length s)") (auto simp: less_Suc_eq_le length_dropWhile_le)

definition re_split :: "string \<Rightarrow> string list" where
  "re_split s = re_split_parts [] s"

text \<open>
  \<open>re.match(r"^(>=|<=|>|<|=)?\s*(.+)$", part)\<close>, with the backtracking of the regular
  expression engine. \<open>(.+)$\<close> from a position to the end: the dot matches anything but a
  newline, and \<open>$\<close> matches at the end of the string or before a newline that ends it.
\<close>

definition dot_plus_eol :: "string \<Rightarrow> string option" where
  "dot_plus_eol t =
     (let g = (if t \<noteq> [] \<and> last t = CHR 0x0A then butlast t else t)
      in if g \<noteq> [] \<and> CHR 0x0A \<notin> set g then Some g else None)"

text \<open>\<open>\s*(.+)$\<close>: the greedy \<open>\s*\<close> gives whitespace back one character at a time.\<close>

fun ws_then_rest :: "nat \<Rightarrow> string \<Rightarrow> string option" where
  "ws_then_rest 0 r = dot_plus_eol r"
| "ws_then_rest (Suc k) r =
     (case dot_plus_eol (drop (Suc k) r) of
        Some g \<Rightarrow> Some g
      | None \<Rightarrow> ws_then_rest k r)"

definition match_ws_rest :: "string \<Rightarrow> string option" where
  "match_ws_rest r = ws_then_rest (length (takeWhile is_space r)) r"

text \<open>
  The optional group tries its alternatives in the order written, then the empty match.
  The result is the pair of group 1 (absent when the group matched nothing) and group 2.
\<close>

fun try_ops :: "string list \<Rightarrow> string \<Rightarrow> (string option \<times> string) option" where
  "try_ops [] part = map_option (Pair None) (match_ws_rest part)"
| "try_ops (p # ps) part =
     (if prefix p part
      then (case match_ws_rest (drop (length p) part) of
              Some g \<Rightarrow> Some (Some p, g)
            | None \<Rightarrow> try_ops ps part)
      else try_ops ps part)"

definition re_match_token :: "string \<Rightarrow> (string option \<times> string) option" where
  "re_match_token part = try_ops [''>='', ''<='', ''>'', ''<'', ''=''] part"

text \<open>The loop over the pieces, lines 402 to 411.\<close>

fun constraints_of_parts :: "string list \<Rightarrow> Constraint list" where
  "constraints_of_parts [] = []"
| "constraints_of_parts (part # parts) =
     (if part = [] then constraints_of_parts parts
      else case re_match_token part of
        None \<Rightarrow> constraints_of_parts parts
      | Some (g1, g2) \<Rightarrow>
          (let opr = (case g1 of Some p \<Rightarrow> p | None \<Rightarrow> ''='');
               ver = strip g2
           in if ver \<noteq> [] then \<lparr>op = opr, version = ver\<rparr> # constraints_of_parts parts
              else constraints_of_parts parts))"

text \<open>
  \<open>parse_constraints\<close>. The unpacking \<open>lo, hi = [...]\<close> raises \<open>ValueError\<close> unless the
  split gave two parts; the caret and the tilde branch raise what \<open>expand_semver_compat\<close>
  raises.
\<close>

definition parse_constraints :: "string \<Rightarrow> exn + Constraint list" where
  "parse_constraints range_str =
     (let s = strip range_str in
      if s = [] \<or> s = ''*'' then Inr []
      else if (startswith s ''['' \<or> startswith s ''('') \<and> (endswith s '']'' \<or> endswith s '')'')
              \<and> CHR '','' \<in> set s
      then
        (let left_inclusive = startswith s ''['';
             right_inclusive = endswith s '']'';
             inner = butlast (tl s)
         in case map strip (split_comma_once inner) of
              [lo, hi] \<Rightarrow>
                Inr ((if lo \<noteq> [] then [\<lparr>op = (if left_inclusive then ''>='' else ''>''), version = lo\<rparr>]
                      else [])
                     @ (if hi \<noteq> [] then [\<lparr>op = (if right_inclusive then ''<='' else ''<''), version = hi\<rparr>]
                        else []))
            | _ \<Rightarrow> Inl (ValueError ''not enough values to unpack (expected 2, got 1)''))
      else if startswith s ''^'' then expand_semver_compat ''^'' (strip (tl s))
      else if startswith s ''~'' then expand_semver_compat ''~'' (strip (tl s))
      else Inr (constraints_of_parts (re_split s)))"

text \<open>
  \<open>satisfies_constraints\<close>: the loop compares the version with the bound of each
  constraint, before it looks at the operator, and returns False at the first constraint
  that fails.
\<close>

fun satisfies_constraints :: "string \<Rightarrow> Constraint list \<Rightarrow> exn + bool" where
  "satisfies_constraints v [] = Inr True"
| "satisfies_constraints v (c # cs) =
     (case compare_versions v (version c) of
        Inl e \<Rightarrow> Inl e
      | Inr cmp_val \<Rightarrow>
          (if op c = ''>'' then (if cmp_val \<le> 0 then Inr False else satisfies_constraints v cs)
           else if op c = ''>='' then (if cmp_val < 0 then Inr False else satisfies_constraints v cs)
           else if op c = ''<'' then (if cmp_val \<ge> 0 then Inr False else satisfies_constraints v cs)
           else if op c = ''<='' then (if cmp_val > 0 then Inr False else satisfies_constraints v cs)
           else if op c = ''='' then (if cmp_val \<noteq> 0 then Inr False else satisfies_constraints v cs)
           else Inr False))"

section \<open>Parsed documents\<close>

text \<open>
  What \<open>json.load\<close>, \<open>tomllib.load\<close> and the two catalogs give: a tree of values. An object
  is a list of its keys with their values, in order (a Python \<open>dict\<close> keeps insertion
  order and has each key once). \<open>JOther t s\<close> stands for any value of another type, a
  float or a TOML date or time, by the two things the script can see of it: its truth
  value \<open>t\<close> and its \<open>str()\<close>, \<open>s\<close>.
\<close>

datatype json =
    JNull
  | JBool bool
  | JInt int
  | JStr string
  | JList "json list"
  | JDict "(string \<times> json) list"
  | JOther bool string

text \<open>\<open>d.get(key)\<close>, which is \<open>None\<close> for a key that is absent.\<close>

definition dict_get :: "(string \<times> json) list \<Rightarrow> string \<Rightarrow> json" where
  "dict_get d k = (case map_of d k of None \<Rightarrow> JNull | Some v \<Rightarrow> v)"

text \<open>The truth value of a value, as \<open>or\<close>, \<open>and\<close> and \<open>if\<close> take it.\<close>

fun truthy :: "json \<Rightarrow> bool" where
  "truthy JNull = False"
| "truthy (JBool b) = b"
| "truthy (JInt i) = (i \<noteq> 0)"
| "truthy (JStr s) = (s \<noteq> [])"
| "truthy (JList xs) = (xs \<noteq> [])"
| "truthy (JDict d) = (d \<noteq> [])"
| "truthy (JOther t s) = t"

text \<open>
  Library functions whose definitions are outside the repository are parameters of the
  model, collected in one record: \<open>datetime.fromisoformat\<close> (\<open>None\<close> when it raises
  \<open>ValueError\<close>), \<open>repr\<close> of a string, \<open>str\<close> of a list or a dict (which raises when an
  integer inside is beyond the limit of the conversion), and \<open>json.dumps\<close> of a string.
\<close>

datatype datetime = Naive nat | Aware int

record pyenv =
  fromisoformat :: "string \<Rightarrow> datetime option"
  repr_str :: "string \<Rightarrow> string"
  str_container :: "json \<Rightarrow> exn + string"
  json_dumps :: "string \<Rightarrow> string"

text \<open>
  A \<open>datetime\<close> is naive (no offset; the number counts microseconds from
  \<open>datetime.min\<close>, the first instant of year 1) or aware (with an offset; the number is
  the instant in UTC). \<open><\<close> between a naive and an aware \<open>datetime\<close> raises \<open>TypeError\<close>.
\<close>

definition datetime_min :: datetime where
  "datetime_min = Naive 0"

definition apostrophe :: string where
  "apostrophe = [CHR 0x27]"

fun datetime_lt :: "datetime \<Rightarrow> datetime \<Rightarrow> exn + bool" where
  "datetime_lt (Naive a) (Naive b) = Inr (a < b)"
| "datetime_lt (Aware a) (Aware b) = Inr (a < b)"
| "datetime_lt _ _ =
     Inl (TypeError (''can'' @ apostrophe @ ''t compare offset-naive and offset-aware datetimes''))"

text \<open>
  \<open>xs.sort(key=f)\<close>: a stable sort by \<open><\<close> on the keys, which raises what a comparison
  raises. The model inserts the elements one by one, each before the first element that is
  greater. CPython's algorithm compares other pairs, but the outcome is the same: keys that
  are all naive or all aware never raise and have one stable order; and when both kinds
  occur, the first key whose kind differs from its predecessors' is compared with one of
  them, in CPython (by the search for the first run or by the binary insertion) as in the
  model.
\<close>

fun insert_sorted :: "('a \<Rightarrow> datetime) \<Rightarrow> 'a \<Rightarrow> 'a list \<Rightarrow> exn + 'a list" where
  "insert_sorted f x [] = Inr [x]"
| "insert_sorted f x (y # ys) =
     (case datetime_lt (f x) (f y) of
        Inl e \<Rightarrow> Inl e
      | Inr True \<Rightarrow> Inr (x # y # ys)
      | Inr False \<Rightarrow> (case insert_sorted f x ys of Inl e \<Rightarrow> Inl e | Inr r \<Rightarrow> Inr (y # r)))"

fun sort_into :: "('a \<Rightarrow> datetime) \<Rightarrow> 'a list \<Rightarrow> 'a list \<Rightarrow> exn + 'a list" where
  "sort_into f acc [] = Inr acc"
| "sort_into f acc (x # xs) =
     (case insert_sorted f x acc of Inl e \<Rightarrow> Inl e | Inr acc2 \<Rightarrow> sort_into f acc2 xs)"

definition list_sort :: "('a \<Rightarrow> datetime) \<Rightarrow> 'a list \<Rightarrow> exn + 'a list" where
  "list_sort f xs = sort_into f [] xs"

text \<open>\<open>value.replace("Z", "+00:00")\<close>.\<close>

definition replace_Z :: "string \<Rightarrow> string" where
  "replace_Z s = concat (map (\<lambda>c. if c = CHR ''Z'' then ''+00:00'' else [c]) s)"

text \<open>\<open>published_dt\<close> and \<open>file_dt\<close>: the same function of the item and the name of the key.\<close>

definition item_dt :: "pyenv \<Rightarrow> string \<Rightarrow> (string \<times> json) list \<Rightarrow> datetime" where
  "item_dt E key item =
     (case dict_get item key of
        JStr v \<Rightarrow> (case fromisoformat E (replace_Z v) of Some d \<Rightarrow> d | None \<Rightarrow> datetime_min)
      | _ \<Rightarrow> datetime_min)"

section \<open>Dependencies and the two resolvers\<close>

record Dependency =
  mod_id :: string
  version_range :: string
  modrinth :: "string option"
  curseforge :: "string option"

record ResolvedDependency =
  source_type :: string
  name :: string
  modrinth_id :: "string option"
  modrinth_version :: "string option"
  curseforge_id :: "string option"
  curseforge_file_id :: "string option"

text \<open>The truth value of an \<open>Optional[str]\<close>, and what an f-string prints for it.\<close>

definition opt_truthy :: "string option \<Rightarrow> bool" where
  "opt_truthy v = (case v of None \<Rightarrow> False | Some s \<Rightarrow> s \<noteq> [])"

definition opt_str :: "string option \<Rightarrow> string" where
  "opt_str v = (case v of None \<Rightarrow> ''None'' | Some s \<Rightarrow> s)"

text \<open>\<open>str(v)\<close> of a value.\<close>

definition py_str :: "pyenv \<Rightarrow> json \<Rightarrow> exn + string" where
  "py_str E v =
     (case v of
        JNull \<Rightarrow> Inr ''None''
      | JBool b \<Rightarrow> Inr (if b then ''True'' else ''False'')
      | JInt i \<Rightarrow> str_int i
      | JStr s \<Rightarrow> Inr s
      | JOther t s \<Rightarrow> Inr s
      | _ \<Rightarrow> str_container E v)"

text \<open>The candidates of \<open>resolve_modrinth\<close>, lines 467 to 476.\<close>

fun modrinth_candidates ::
  "Constraint list \<Rightarrow> json list \<Rightarrow> exn + (string \<times> json) list list" where
  "modrinth_candidates constraints [] = Inr []"
| "modrinth_candidates constraints (v # versions) =
     (case v of
        JDict d \<Rightarrow>
          (case dict_get d ''version_number'' of
             JStr vn \<Rightarrow>
               (if vn = [] then modrinth_candidates constraints versions
                else if constraints = [] then
                  (case modrinth_candidates constraints versions of
                     Inl e \<Rightarrow> Inl e | Inr rest \<Rightarrow> Inr (d # rest))
                else
                  (case satisfies_constraints vn constraints of
                     Inl e \<Rightarrow> Inl e
                   | Inr ok \<Rightarrow>
                       (if \<not> ok then modrinth_candidates constraints versions
                        else case modrinth_candidates constraints versions of
                          Inl e \<Rightarrow> Inl e | Inr rest \<Rightarrow> Inr (d # rest))))
           | _ \<Rightarrow> modrinth_candidates constraints versions)
      | _ \<Rightarrow> modrinth_candidates constraints versions)"

text \<open>
  \<open>resolve_modrinth\<close>. The answer of the catalog, or the exception of the request, is the
  argument \<open>response\<close>.
\<close>

definition resolve_modrinth ::
  "pyenv \<Rightarrow> Dependency \<Rightarrow> string \<Rightarrow> string \<Rightarrow> string \<Rightarrow> exn + json \<Rightarrow> exn + ResolvedDependency" where
  "resolve_modrinth E dep loader minecraft_version policy response =
     (if \<not> opt_truthy (modrinth dep) then Inl AssertionError
      else case response of
        Inl e \<Rightarrow> Inl e
      | Inr (JList versions) \<Rightarrow>
          (case parse_constraints (version_range dep) of
             Inl e \<Rightarrow> Inl e
           | Inr constraints \<Rightarrow>
               (case modrinth_candidates constraints versions of
                  Inl e \<Rightarrow> Inl e
                | Inr candidates \<Rightarrow>
                    (if candidates = []
                     then Inl (RuntimeError
                       (''No Modrinth versions for '' @ mod_id dep @ '' ('' @ opt_str (modrinth dep)
                        @ '') satisfy range '' @ apostrophe @ version_range dep @ apostrophe
                        @ '' for loader='' @ loader @ '' mc='' @ minecraft_version))
                     else case list_sort (item_dt E ''date_published'') candidates of
                       Inl e \<Rightarrow> Inl e
                     | Inr [] \<Rightarrow> Inl (IndexError ''list index out of range'')
                     | Inr (c # cs) \<Rightarrow>
                         (let chosen = (if policy = ''min'' then c else last (c # cs))
                          in case py_str E (dict_get chosen ''version_number'') of
                               Inl e \<Rightarrow> Inl e
                             | Inr vn \<Rightarrow>
                                 Inr \<lparr>source_type = ''modrinth'', name = mod_id dep,
                                      modrinth_id = modrinth dep, modrinth_version = Some vn,
                                      curseforge_id = None, curseforge_file_id = None\<rparr>))))
      | Inr _ \<Rightarrow>
          Inl (RuntimeError (''Unexpected Modrinth response for '' @ repr_str E (opt_str (modrinth dep)))))"

text \<open>\<open>curseforge_expected_loader_label\<close>: a dictionary lookup, \<open>KeyError\<close> for another loader.\<close>

definition curseforge_expected_loader_label :: "pyenv \<Rightarrow> string \<Rightarrow> exn + string" where
  "curseforge_expected_loader_label E loader =
     (case map_of [(''forge'', ''Forge''), (''neoforge'', ''NeoForge''), (''fabric'', ''Fabric'')] loader of
        Some label \<Rightarrow> Inr label
      | None \<Rightarrow> Inl (KeyError (repr_str E loader)))"

text \<open>The filter by game version and loader label, lines 549 to 560.\<close>

fun curseforge_filtered :: "string \<Rightarrow> string \<Rightarrow> json list \<Rightarrow> (string \<times> json) list list" where
  "curseforge_filtered minecraft_version label [] = []"
| "curseforge_filtered minecraft_version label (item # data) =
     (case item of
        JDict d \<Rightarrow>
          (case dict_get d ''gameVersions'' of
             JList gvs \<Rightarrow>
               (if JStr minecraft_version \<notin> set gvs then curseforge_filtered minecraft_version label data
                else if JStr label \<notin> set gvs then curseforge_filtered minecraft_version label data
                else d # curseforge_filtered minecraft_version label data)
           | _ \<Rightarrow> curseforge_filtered minecraft_version label data)
      | _ \<Rightarrow> curseforge_filtered minecraft_version label data)"

text \<open>\<open>str(item.get(key) or "")\<close>.\<close>

definition text_or_empty :: "pyenv \<Rightarrow> (string \<times> json) list \<Rightarrow> string \<Rightarrow> exn + string" where
  "text_or_empty E item key =
     (let v = dict_get item key in py_str E (if truthy v then v else JStr []))"

text \<open>
  Lines 575 to 577 on one file: both names are made strings, then comes the test
  \<open>needle in fn or needle in dn\<close>.
\<close>

definition curseforge_item_matches ::
  "pyenv \<Rightarrow> string \<Rightarrow> (string \<times> json) list \<Rightarrow> exn + bool" where
  "curseforge_item_matches E needle item =
     (case text_or_empty E item ''fileName'' of
        Inl e \<Rightarrow> Inl e
      | Inr fn \<Rightarrow>
          (case text_or_empty E item ''displayName'' of
             Inl e \<Rightarrow> Inl e
           | Inr dn \<Rightarrow> Inr (contains fn needle \<or> contains dn needle)))"

text \<open>A loop that keeps the elements passing a test that can raise.\<close>

fun filter_exn :: "('a \<Rightarrow> exn + bool) \<Rightarrow> 'a list \<Rightarrow> exn + 'a list" where
  "filter_exn f [] = Inr []"
| "filter_exn f (x # xs) =
     (case f x of
        Inl e \<Rightarrow> Inl e
      | Inr b \<Rightarrow>
          (case filter_exn f xs of
             Inl e \<Rightarrow> Inl e
           | Inr ys \<Rightarrow> Inr (if b then x # ys else ys)))"

text \<open>The narrowing of the filtered files by an exact range, lines 569 to 584.\<close>

definition curseforge_narrowed ::
  "pyenv \<Rightarrow> Dependency \<Rightarrow> (string \<times> json) list list \<Rightarrow> exn + (string \<times> json) list list" where
  "curseforge_narrowed E dep filtered =
     (let exact = strip (version_range dep) in
      case parse_constraints exact of
        Inl e \<Rightarrow> Inl e
      | Inr constraints \<Rightarrow>
          (if constraints \<noteq> [] \<and> (\<forall>c\<in>set constraints. op c = ''='') \<and> length constraints = 1
           then
             (let needle = version (hd constraints)
              in case filter_exn (curseforge_item_matches E needle) filtered of
                   Inl e \<Rightarrow> Inl e
                 | Inr narrowed \<Rightarrow>
                     (if narrowed \<noteq> [] then Inr narrowed
                      else Inl (RuntimeError
                        (''CurseForge dependency '' @ mod_id dep @ '' has exact range '' @ apostrophe
                         @ version_range dep @ apostrophe
                         @ '' but no fileName/displayName contains it''))))
           else Inr filtered))"

text \<open>The choice by policy and the file id, lines 586 to 598.\<close>

definition curseforge_chosen ::
  "pyenv \<Rightarrow> Dependency \<Rightarrow> string \<Rightarrow> (string \<times> json) list list \<Rightarrow> exn + ResolvedDependency" where
  "curseforge_chosen E dep policy filtered =
     (case list_sort (item_dt E ''fileDate'') filtered of
        Inl e \<Rightarrow> Inl e
      | Inr [] \<Rightarrow> Inl (IndexError ''list index out of range'')
      | Inr (c # cs) \<Rightarrow>
          (let chosen = (if policy = ''min'' then c else last (c # cs));
               file_id = dict_get chosen ''id''
           in if (case file_id of JInt i \<Rightarrow> True | JBool b \<Rightarrow> True | _ \<Rightarrow> False)
              then (case py_str E file_id of
                      Inl e \<Rightarrow> Inl e
                    | Inr fid \<Rightarrow>
                        Inr \<lparr>source_type = ''curseforge'', name = mod_id dep,
                             modrinth_id = None, modrinth_version = None,
                             curseforge_id = curseforge dep,
                             curseforge_file_id = Some fid\<rparr>)
              else Inl (RuntimeError
                (''CurseForge file entry missing numeric id for '' @ opt_str (curseforge dep)))))"

text \<open>
  \<open>resolve_curseforge\<close>. \<open>re.fullmatch(r"\d+", alias)\<close> holds of the non-empty strings of
  digits. As in \<open>resolve_modrinth\<close>, \<open>response\<close> is the outcome of the request.
\<close>

definition resolve_curseforge ::
  "pyenv \<Rightarrow> Dependency \<Rightarrow> string \<Rightarrow> string \<Rightarrow> string \<Rightarrow> exn + json \<Rightarrow> exn + ResolvedDependency" where
  "resolve_curseforge E dep loader minecraft_version policy response =
     (if \<not> opt_truthy (curseforge dep) then Inl AssertionError
      else if \<not> (opt_str (curseforge dep) \<noteq> [] \<and> list_all is_digit (opt_str (curseforge dep)))
      then Inl (RuntimeError
        (''CurseForge alias for dependency '' @ mod_id dep @ '' must be a numeric project id; got ''
         @ repr_str E (opt_str (curseforge dep))))
      else case curseforge_expected_loader_label E loader of
        Inl e \<Rightarrow> Inl e
      | Inr label \<Rightarrow>
          (case response of
             Inl e \<Rightarrow> Inl e
           | Inr payload \<Rightarrow>
               (case (case payload of JDict p \<Rightarrow> dict_get p ''data'' | _ \<Rightarrow> JNull) of
                  JList data \<Rightarrow>
                    (let filtered = curseforge_filtered minecraft_version label data in
                     if filtered = []
                     then Inl (RuntimeError
                       (''No CurseForge files for '' @ mod_id dep @ '' ('' @ opt_str (curseforge dep)
                        @ '') match loader='' @ label @ '' mc='' @ minecraft_version))
                     else case curseforge_narrowed E dep filtered of
                       Inl e \<Rightarrow> Inl e
                     | Inr narrowed \<Rightarrow> curseforge_chosen E dep policy narrowed)
                | _ \<Rightarrow>
                    Inl (RuntimeError
                      (''Unexpected CurseForge response for mod id '' @ opt_str (curseforge dep))))))"

section \<open>The writer and the entry point\<close>

















section \<open>The extractors\<close>

text \<open>
  The loop of \<open>read_forge_dependencies\<close> over the entries, lines 212 to 250: the dependency
  of an entry, or nothing for an entry that is passed over.
\<close>

definition forge_entry :: "json \<Rightarrow> exn + Dependency option" where
  "forge_entry entry =
     (case entry of
        JDict e \<Rightarrow>
          (case dict_get e ''modId'' of
             JStr dep_id \<Rightarrow>
               (if dep_id = [] then Inr None
                else if dep_id = ''minecraft'' then Inr None
                else if dict_get e ''mandatory'' \<noteq> JBool True then Inr None
                else
                  (let vr = (case dict_get e ''versionRange'' of
                               JStr s \<Rightarrow> (if strip s = [] then ''*'' else s)
                             | _ \<Rightarrow> ''*'')
                   in case dict_get e ''mc-publish'' of
                        JDict mcp \<Rightarrow>
                          (if dict_get mcp ''ignore'' = JBool True then Inr None
                           else
                             (let mr_alias = (case dict_get mcp ''modrinth'' of
                                                JStr mr \<Rightarrow> (if strip mr \<noteq> [] then Some (strip mr) else None)
                                              | _ \<Rightarrow> None)
                              in case (case dict_get mcp ''curseforge'' of
                                         JStr cf \<Rightarrow> Inr (Some (strip cf))
                                       | JInt i \<Rightarrow>
                                           (case str_int i of
                                              Inl ex \<Rightarrow> Inl ex
                                            | Inr s \<Rightarrow> Inr (Some (strip s)))
                                       | JBool b \<Rightarrow> Inr (Some (strip (if b then ''True'' else ''False'')))
                                       | _ \<Rightarrow> Inr None) of
                                   Inl ex \<Rightarrow> Inl ex
                                 | Inr cf_alias \<Rightarrow>
                                     Inr (Some \<lparr>mod_id = dep_id, version_range = strip vr,
                                                modrinth = mr_alias, curseforge = cf_alias\<rparr>)))
                      | _ \<Rightarrow> Inr (Some \<lparr>mod_id = dep_id, version_range = strip vr,
                                        modrinth = None, curseforge = None\<rparr>)))
           | _ \<Rightarrow> Inr None)
      | _ \<Rightarrow> Inr None)"

text \<open>A loop that collects what a function gives, which can give nothing or raise.\<close>

fun collect_exn :: "('a \<Rightarrow> exn + 'b option) \<Rightarrow> 'a list \<Rightarrow> exn + 'b list" where
  "collect_exn f [] = Inr []"
| "collect_exn f (x # xs) =
     (case f x of
        Inl e \<Rightarrow> Inl e
      | Inr None \<Rightarrow> collect_exn f xs
      | Inr (Some y) \<Rightarrow> (case collect_exn f xs of Inl e \<Rightarrow> Inl e | Inr ys \<Rightarrow> Inr (y # ys)))"

text \<open>
  \<open>read_forge_dependencies\<close> on the parsed \<open>mods.toml\<close>, a table; \<open>None\<close> when no such
  file exists.
\<close>

definition read_forge_dependencies :: "(string \<times> json) list option \<Rightarrow> exn + Dependency list" where
  "read_forge_dependencies mods_toml =
     (case mods_toml of
        None \<Rightarrow> Inr []
      | Some data \<Rightarrow>
          (let forge_mod_id =
                 (case dict_get data ''mods'' of
                    JList (JDict m0 # ms) \<Rightarrow>
                      (case dict_get m0 ''modId'' of
                         JStr mid \<Rightarrow> (if mid \<noteq> [] then Some mid else None)
                       | _ \<Rightarrow> None)
                  | _ \<Rightarrow> None)
           in case (dict_get data ''dependencies'', forge_mod_id) of
                (JDict deps_root, Some mid) \<Rightarrow>
                  (case dict_get deps_root mid of
                     JList dep_entries \<Rightarrow> collect_exn forge_entry dep_entries
                   | _ \<Rightarrow> Inr [])
              | _ \<Rightarrow> Inr []))"

text \<open>
  The loops of \<open>read_fabric_dependencies\<close>, lines 157 to 176, over the object \<open>depends\<close>,
  and of \<open>read_quilt_dependencies\<close>, lines 287 to 319, over the list \<open>depends\<close>. The
  aliases read from the \<open>mc-publish\<close> annotations are the argument \<open>alias_map\<close>.
\<close>

definition alias_of :: "(string \<times> (string \<times> string) list) list \<Rightarrow> string \<Rightarrow> string \<Rightarrow> string option" where
  "alias_of alias_map dep_id platform =
     (case map_of alias_map dep_id of None \<Rightarrow> None | Some aliases \<Rightarrow> map_of aliases platform)"

definition fabric_entry ::
  "(string \<times> (string \<times> string) list) list \<Rightarrow> string \<times> json \<Rightarrow> Dependency option" where
  "fabric_entry alias_map kv =
     (case kv of (dep_id, vr) \<Rightarrow>
        (if dep_id \<in> {''minecraft'', ''java'', ''fabricloader''} then None
         else
           (let vrange = (case vr of JStr s \<Rightarrow> s | _ \<Rightarrow> ''*'')
            in Some \<lparr>mod_id = dep_id,
                     version_range = (if strip vrange = [] then ''*'' else strip vrange),
                     modrinth = alias_of alias_map dep_id ''modrinth'',
                     curseforge = alias_of alias_map dep_id ''curseforge''\<rparr>)))"

definition fabric_dependencies ::
  "(string \<times> (string \<times> string) list) list \<Rightarrow> (string \<times> json) list \<Rightarrow> Dependency list" where
  "fabric_dependencies alias_map depends = List.map_filter (fabric_entry alias_map) depends"

definition quilt_entry ::
  "(string \<times> (string \<times> string) list) list \<Rightarrow> json \<Rightarrow> Dependency option" where
  "quilt_entry alias_map item =
     (let parsed =
            (case item of
               JStr s \<Rightarrow> Some (s, ''*'', False)
             | JDict d \<Rightarrow>
                 (case dict_get d ''id'' of
                    JStr dep_id \<Rightarrow>
                      (if dep_id = [] then None
                       else Some (dep_id,
                                  (case dict_get d ''versions'' of
                                     JStr s \<Rightarrow> (if strip s = [] then ''*'' else s)
                                   | _ \<Rightarrow> ''*''),
                                  dict_get d ''optional'' = JBool True))
                  | _ \<Rightarrow> None)
             | _ \<Rightarrow> None)
      in case parsed of
           None \<Rightarrow> None
         | Some (dep_id, vrange, optional) \<Rightarrow>
             (if optional then None
              else if dep_id \<in> {''minecraft'', ''java''} then None
              else Some \<lparr>mod_id = dep_id, version_range = strip vrange,
                         modrinth = alias_of alias_map dep_id ''modrinth'',
                         curseforge = alias_of alias_map dep_id ''curseforge''\<rparr>))"

definition quilt_dependencies ::
  "(string \<times> (string \<times> string) list) list \<Rightarrow> json list \<Rightarrow> Dependency list" where
  "quilt_dependencies alias_map depends = List.map_filter (quilt_entry alias_map) depends"

section \<open>The specification's reading of the constraint engine\<close>

text \<open>
  The definitions of this section follow the words of the specification, not the code;
  the theorems below compare them with the code's functions.

  The maximal digit runs of a string: cut the string at every character that is not a
  digit and keep the pieces that are not empty.
\<close>

fun split_at_nondigits :: "string \<Rightarrow> string list" where
  "split_at_nondigits [] = [[]]"
| "split_at_nondigits (c # cs) =
     (if is_digit c
      then (case split_at_nondigits cs of r # rs \<Rightarrow> (c # r) # rs | [] \<Rightarrow> [[c]])
      else [] # split_at_nondigits cs)"

definition maximal_digit_runs :: "string \<Rightarrow> string list" where
  "maximal_digit_runs s = filter (\<lambda>r. r \<noteq> []) (split_at_nondigits s)"

text \<open>The integer tuple of a version; a version with no digits has the key \<open>(0,)\<close>.\<close>

definition digit_run_key :: "string \<Rightarrow> int list" where
  "digit_run_key s =
     (if maximal_digit_runs s = [] then [0]
      else map (\<lambda>r. int (digits_value r)) (maximal_digit_runs s))"

text \<open>
  A version is within the limit of the conversions when none of its digit runs has more
  than 4300 digits.
\<close>

definition within_limit :: "string \<Rightarrow> bool" where
  "within_limit s = list_all (\<lambda>r. length r \<le> int_max_str_digits) (maximal_digit_runs s)"

text \<open>
  Three-way lexicographic comparison; \<open><\<close> on lists is the lexicographic order of
  \<open>HOL-Library.List_Lexorder\<close>.
\<close>

definition lex_compare :: "int list \<Rightarrow> int list \<Rightarrow> int" where
  "lex_compare ka kb = (if ka < kb then - 1 else if kb < ka then 1 else 0)"

text \<open>
  A version meets a constraint: the comparison of the version with the bound is the one the
  operator names; no version meets a constraint with any other operator.
\<close>

definition meets :: "string \<Rightarrow> Constraint \<Rightarrow> bool" where
  "meets v c =
     (let r = lex_compare (digit_run_key v) (digit_run_key (version c)) in
      if op c = ''='' then r = 0
      else if op c = ''>'' then r > 0
      else if op c = ''>='' then r \<ge> 0
      else if op c = ''<'' then r < 0
      else if op c = ''<='' then r \<le> 0
      else False)"

text \<open>
  The version string \<open>x.y.z\<close> of three natural numbers, each in decimal.
\<close>

definition dotted :: "nat \<Rightarrow> nat \<Rightarrow> nat \<Rightarrow> string" where
  "dotted x y z = str_nat x @ ''.'' @ str_nat y @ ''.'' @ str_nat z"



text \<open>
  A natural number is within the limit when its decimal numeral has at most 4300 digits.
\<close>

definition decimal_within_limit :: "nat \<Rightarrow> bool" where
  "decimal_within_limit n \<longleftrightarrow> length (str_nat n) \<le> int_max_str_digits"


text \<open>
  Stable insertion into a list by a key: the element goes before the first element with a
  greater key.
\<close>

fun insert_after :: "('a \<Rightarrow> 'k::linorder) \<Rightarrow> 'a \<Rightarrow> 'a list \<Rightarrow> 'a list" where
  "insert_after g x [] = [x]"
| "insert_after g x (y # ys) = (if g x < g y then x # y # ys else y # insert_after g x ys)"

section \<open>Decimal numerals\<close>

lemma digit_char_props:
  assumes "d < 10"
  shows "is_digit (digit_char d)" and "digit_val (digit_char d) = d"
proof -
  from assms have "d = 0 \<or> d = 1 \<or> d = 2 \<or> d = 3 \<or> d = 4 \<or> d = 5 \<or> d = 6 \<or> d = 7 \<or> d = 8 \<or> d = 9"
    by arith
  then show "is_digit (digit_char d)" and "digit_val (digit_char d) = d"
    by (auto simp: digit_char_def is_digit_def digit_val_def)
qed

lemma is_digit_not_space: "is_digit c \<Longrightarrow> \<not> is_space c"
  by (auto simp: is_digit_def is_space_def)


lemma str_nat_digits: "str_nat n \<noteq> [] \<and> (\<forall>c\<in>set (str_nat n). is_digit c)"
proof (induction n rule: str_nat.induct)
  case (1 n)
  show ?case
  proof (cases "n < 10")
    case True
    then show ?thesis by (simp add: str_nat.simps [of n] digit_char_props)
  next
    case False
    with 1 show ?thesis by (simp add: str_nat.simps [of n] digit_char_props)
  qed
qed

lemma digits_value_snoc: "digits_value (ds @ [c]) = 10 * digits_value ds + digit_val c"
  by (simp add: digits_value_def)

lemma digits_value_str_nat: "digits_value (str_nat n) = n"
proof (induction n rule: str_nat.induct)
  case (1 n)
  show ?case
  proof (cases "n < 10")
    case True
    then show ?thesis by (simp add: str_nat.simps [of n] digit_char_props digits_value_def)
  next
    case False
    with 1 show ?thesis by (simp add: str_nat.simps [of n] digit_char_props digits_value_snoc)
  qed
qed

lemma str_nat_0: "str_nat 0 = ''0''"
  by (simp add: str_nat.simps [of 0] digit_char_def)




section \<open>The two conversions and their limit\<close>

lemma py_int_within:
  "length n \<le> int_max_str_digits \<Longrightarrow> py_int n = Inr (int (digits_value n))"
  by (simp add: py_int_def)

lemma py_int_beyond:
  "\<not> length n \<le> int_max_str_digits \<Longrightarrow> py_int n = Inl (ValueError (int_limit_message (length n)))"
  by (simp add: py_int_def)

lemma map_exn_py_int_within:
  "list_all (\<lambda>r. length r \<le> int_max_str_digits) rs
   \<Longrightarrow> map_exn py_int rs = Inr (map (\<lambda>r. int (digits_value r)) rs)"
  by (induction rs) (simp_all add: py_int_within)

lemma map_exn_py_int_beyond:
  "\<not> list_all (\<lambda>r. length r \<le> int_max_str_digits) rs
   \<Longrightarrow> \<exists>m. map_exn py_int rs = Inl (ValueError m)"
proof (induction rs)
  case Nil
  then show ?case by simp
next
  case (Cons r rs)
  show ?case
  proof (cases "length r \<le> int_max_str_digits")
    case True
    with Cons obtain m where "map_exn py_int rs = Inl (ValueError m)" by auto
    with True show ?thesis by (simp add: py_int_within)
  next
    case False
    then show ?thesis by (simp add: py_int_beyond)
  qed
qed

lemma str_int_within:
  "length (str_nat n) \<le> int_max_str_digits \<Longrightarrow> str_int (int n) = Inr (str_nat n)"
  by (simp add: str_int_def)

lemma str_int_beyond:
  "\<not> length (str_nat n) \<le> int_max_str_digits \<Longrightarrow> str_int (int n) = Inl (ValueError str_limit_message)"
  by (simp add: str_int_def)

section \<open>Version keys: the scan finds the maximal digit runs\<close>

lemma findall_digits_unfold:
  "findall_digits s =
     (if takeWhile is_digit s \<noteq> [] then [takeWhile is_digit s] else [])
     @ findall_digits (dropWhile is_digit s)"
  by (cases s) simp_all

lemma split_at_nondigits_shape:
  "\<exists>ts. split_at_nondigits s = takeWhile is_digit s # ts
        \<and> filter (\<lambda>r. r \<noteq> []) ts = findall_digits (dropWhile is_digit s)"
proof (induction s)
  case Nil
  show ?case by simp
next
  case (Cons c cs)
  then obtain ts where ts: "split_at_nondigits cs = takeWhile is_digit cs # ts"
    "filter (\<lambda>r. r \<noteq> []) ts = findall_digits (dropWhile is_digit cs)"
    by blast
  show ?case
  proof (cases "is_digit c")
    case True
    with ts show ?thesis by simp
  next
    case False
    have "filter (\<lambda>r. r \<noteq> []) (split_at_nondigits cs) = findall_digits cs"
      using ts findall_digits_unfold [of cs] by simp
    with False show ?thesis by simp
  qed
qed

lemma findall_digits_maximal_runs: "findall_digits s = maximal_digit_runs s"
proof -
  obtain ts where ts: "split_at_nondigits s = takeWhile is_digit s # ts"
    "filter (\<lambda>r. r \<noteq> []) ts = findall_digits (dropWhile is_digit s)"
    using split_at_nondigits_shape by blast
  then show ?thesis
    using findall_digits_unfold [of s] by (simp add: maximal_digit_runs_def)
qed


lemma parse_version_key_within:
  "within_limit s \<Longrightarrow> parse_version_key s = Inr (digit_run_key s)"
  by (simp add: parse_version_key_def digit_run_key_def within_limit_def Let_def
      findall_digits_maximal_runs map_exn_py_int_within)

lemma parse_version_key_beyond:
  assumes "\<not> within_limit s"
  shows "\<exists>m. parse_version_key s = Inl (ValueError m)"
proof -
  from assms have "maximal_digit_runs s \<noteq> []" by (auto simp: within_limit_def)
  with assms show ?thesis
    using map_exn_py_int_beyond [of "maximal_digit_runs s"]
    by (simp add: parse_version_key_def within_limit_def Let_def findall_digits_maximal_runs)
qed

section \<open>Comparison of versions\<close>

lemma tuple_lt_lex: "tuple_lt xs ys \<longleftrightarrow> xs < ys"
  by (induction xs ys rule: tuple_lt.induct) auto

lemma tuple_gt_lex: "tuple_gt xs ys \<longleftrightarrow> ys < xs"
  by (induction xs ys rule: tuple_gt.induct) auto

lemma compare_versions_within:
  "within_limit a \<Longrightarrow> within_limit b
   \<Longrightarrow> compare_versions a b = Inr (lex_compare (digit_run_key a) (digit_run_key b))"
  by (simp add: compare_versions_def parse_version_key_within lex_compare_def tuple_lt_lex tuple_gt_lex)

lemma compare_versions_beyond:
  assumes "\<not> (within_limit a \<and> within_limit b)"
  shows "\<exists>m. compare_versions a b = Inl (ValueError m)"
proof (cases "within_limit a")
  case True
  with assms obtain m where "parse_version_key b = Inl (ValueError m)"
    using parse_version_key_beyond [of b] by auto
  with True show ?thesis by (simp add: compare_versions_def parse_version_key_within)
next
  case False
  then obtain m where "parse_version_key a = Inl (ValueError m)"
    using parse_version_key_beyond [of a] by auto
  then show ?thesis by (simp add: compare_versions_def)
qed

text \<open>A version of 4301 digits, one more than the conversion admits.\<close>

lemma findall_digits_run:
  assumes "ds \<noteq> []" "\<forall>c\<in>set ds. is_digit c" "rest = [] \<or> \<not> is_digit (hd rest)"
  shows "findall_digits (ds @ rest) = ds # findall_digits rest"
proof -
  from assms(1) obtain d ds' where ds: "ds = d # ds'" by (cases ds) auto
  from assms(3) have r: "takeWhile is_digit rest = []" "dropWhile is_digit rest = rest"
    by (cases rest; simp)+
  from assms(2) ds have "takeWhile is_digit (ds' @ rest) = ds'" "dropWhile is_digit (ds' @ rest) = rest"
    using r by (simp_all add: takeWhile_append2 dropWhile_append2)
  with assms(2) ds show ?thesis by simp
qed

lemma long_run_digits:
  "replicate 4301 (CHR ''1'') \<noteq> []" "\<forall>c\<in>set (replicate 4301 (CHR ''1'')). is_digit c"
  by (simp_all add: is_digit_def)

lemma findall_digits_long_run:
  "rest = [] \<or> \<not> is_digit (hd rest)
   \<Longrightarrow> findall_digits (replicate 4301 (CHR ''1'') @ rest) = replicate 4301 (CHR ''1'') # findall_digits rest"
  using long_run_digits by (rule findall_digits_run)

lemma limit_message_4301:
  "int_limit_message 4301 =
     ''Exceeds the limit (4300 digits) for integer string conversion: value has 4301 digits; use sys.set_int_max_str_digits() to increase the limit''"
  by code_simp

lemma parse_version_key_long_run:
  assumes "rest = [] \<or> \<not> is_digit (hd rest)"
  shows "parse_version_key (replicate 4301 (CHR ''1'') @ rest) = Inl (ValueError (int_limit_message 4301))"
  using findall_digits_long_run [OF assms]
  by (simp add: parse_version_key_def py_int_def int_max_str_digits_def)

lemma compare_versions_long_run:
  assumes "rest = [] \<or> \<not> is_digit (hd rest)"
  shows "compare_versions (replicate 4301 (CHR ''1'') @ rest) b = Inl (ValueError (int_limit_message 4301))"
  by (simp add: compare_versions_def parse_version_key_long_run [OF assms])

lemma within_limit_long_run:
  assumes "rest = [] \<or> \<not> is_digit (hd rest)"
  shows "\<not> within_limit (replicate 4301 (CHR ''1'') @ rest)"
  using findall_digits_long_run [OF assms]
  by (simp add: within_limit_def findall_digits_maximal_runs [symmetric] int_max_str_digits_def)

lemma maximal_digit_runs_long_run:
  "maximal_digit_runs (replicate 4301 (CHR ''1'')) = [replicate 4301 (CHR ''1'')]"
proof -
  have "findall_digits (replicate 4301 (CHR ''1'')) = [replicate 4301 (CHR ''1'')]"
    using findall_digits_long_run [of "[]"] by simp
  then show ?thesis by (simp only: findall_digits_maximal_runs)
qed

lemma maximal_digit_runs_long_run_dot:
  "maximal_digit_runs (replicate 4301 (CHR ''1'') @ ''.0'') = [replicate 4301 (CHR ''1''), ''0'']"
proof -
  have "findall_digits ''.0'' = [''0'']" by code_simp
  then have "findall_digits (replicate 4301 (CHR ''1'') @ ''.0'') = [replicate 4301 (CHR ''1''), ''0'']"
    using findall_digits_long_run [of "''.0''"] by (simp add: is_digit_def)
  then show ?thesis by (simp only: findall_digits_maximal_runs)
qed

text \<open>
  Claim C3. \<open>compare_versions a b\<close> is the lexicographic comparison of the integer tuples
  made of all maximal digit runs of \<open>a\<close> and of \<open>b\<close>, in order, a string with no digit
  having the key \<open>(0,)\<close>, for the versions whose digit runs have at most 4300 digits each;
  for every other pair the comparison raises \<open>ValueError\<close>. And
  \<open>compare("1.10.0", "1.9.0")\<close> is 1.
\<close>

theorem compare_versions_lexicographic:
  "(within_limit a \<and> within_limit b
      \<longrightarrow> compare_versions a b = Inr (lex_compare (digit_run_key a) (digit_run_key b)))
   \<and> (\<not> (within_limit a \<and> within_limit b) \<longrightarrow> (\<exists>m. compare_versions a b = Inl (ValueError m)))
   \<and> digit_run_key ''no digits'' = [0]
   \<and> compare_versions ''1.10.0'' ''1.9.0'' = Inr 1"
proof -
  have "within_limit a \<and> within_limit b
      \<longrightarrow> compare_versions a b = Inr (lex_compare (digit_run_key a) (digit_run_key b))"
    by (simp add: compare_versions_within)
  moreover have "\<not> (within_limit a \<and> within_limit b) \<longrightarrow> (\<exists>m. compare_versions a b = Inl (ValueError m))"
    using compare_versions_beyond [of a b] by blast
  moreover have "digit_run_key ''no digits'' = [0]" by code_simp
  moreover have "compare_versions ''1.10.0'' ''1.9.0'' = Inr 1" by code_simp
  ultimately show ?thesis by blast
qed

theorem compare_versions_lexicographic_witness:
  "within_limit ''2.0'' \<and> within_limit ''2.0.1''
   \<and> compare_versions ''2.0'' ''2.0.1'' = Inr (lex_compare (digit_run_key ''2.0'') (digit_run_key ''2.0.1''))
   \<and> lex_compare (digit_run_key ''2.0'') (digit_run_key ''2.0.1'') = - 1
   \<and> \<not> (within_limit (replicate 4301 (CHR ''1'')) \<and> within_limit ''1'')
   \<and> (\<exists>m. compare_versions (replicate 4301 (CHR ''1'')) ''1'' = Inl (ValueError m))"
proof -
  have w: "within_limit ''2.0''" "within_limit ''2.0.1''" by code_simp+
  have l: "lex_compare (digit_run_key ''2.0'') (digit_run_key ''2.0.1'') = - 1" by code_simp
  have n: "\<not> (within_limit (replicate 4301 (CHR ''1'')) \<and> within_limit ''1'')"
    using within_limit_long_run [of "[]"] by simp
  from w l n compare_versions_lexicographic [of "''2.0''" "''2.0.1''"]
    compare_versions_lexicographic [of "replicate 4301 (CHR ''1'')" "''1''"]
  show ?thesis by blast
qed

text \<open>
  Against claim C3 as it is worded, for every pair of version strings: a version of 4301
  digits has a digit-run tuple, but \<open>compare_versions\<close> returns no comparison for it.
\<close>

theorem compare_versions_limit_counterexample:
  "compare_versions (replicate 4301 (CHR ''1'')) ''1'' = Inl (ValueError (int_limit_message 4301))
   \<and> maximal_digit_runs (replicate 4301 (CHR ''1'')) = [replicate 4301 (CHR ''1'')]"
proof -
  have "compare_versions (replicate 4301 (CHR ''1'')) ''1'' = Inl (ValueError (int_limit_message 4301))"
    using compare_versions_long_run [of "[]" "''1''"] by simp
  moreover have "maximal_digit_runs (replicate 4301 (CHR ''1'')) = [replicate 4301 (CHR ''1'')]"
    by (rule maximal_digit_runs_long_run)
  ultimately show ?thesis by blast
qed

lemma strict_prefix_less: "strict_prefix xs ys \<Longrightarrow> xs < (ys :: int list)"
proof (induction xs arbitrary: ys)
  case Nil
  then show ?case by (cases ys) auto
next
  case (Cons x xs)
  then show ?case by (cases ys) auto
qed

lemma lex_compare_strict_prefix: "strict_prefix ka kb \<Longrightarrow> lex_compare ka kb = - 1"
  by (simp add: lex_compare_def strict_prefix_less)

text \<open>
  Claim C10. A version whose digit-run tuple is a proper prefix of another's is strictly
  smaller, when the digit runs of both have at most 4300 digits each:
  \<open>compare("1.0", "1.0.0") = -1\<close>, and so the exact range \<open>"1.0"\<close> does not accept
  \<open>"1.0.0"\<close>.
\<close>

theorem compare_versions_prefix_smaller:
  "(within_limit a \<and> within_limit b \<and> strict_prefix (digit_run_key a) (digit_run_key b)
      \<longrightarrow> compare_versions a b = Inr (- 1))
   \<and> digit_run_key ''1.0'' = [1, 0] \<and> digit_run_key ''1.0.0'' = [1, 0, 0]
   \<and> compare_versions ''1.0'' ''1.0.0'' = Inr (- 1)
   \<and> parse_constraints ''1.0'' = Inr [\<lparr>op = ''='', version = ''1.0''\<rparr>]
   \<and> satisfies_constraints ''1.0.0'' [\<lparr>op = ''='', version = ''1.0''\<rparr>] = Inr False"
proof -
  have "within_limit a \<and> within_limit b \<and> strict_prefix (digit_run_key a) (digit_run_key b)
      \<longrightarrow> compare_versions a b = Inr (- 1)"
    by (simp add: compare_versions_within lex_compare_strict_prefix)
  moreover have "digit_run_key ''1.0'' = [1, 0]" "digit_run_key ''1.0.0'' = [1, 0, 0]" by code_simp+
  moreover have "compare_versions ''1.0'' ''1.0.0'' = Inr (- 1)" by code_simp
  moreover have "parse_constraints ''1.0'' = Inr [\<lparr>op = ''='', version = ''1.0''\<rparr>]" by code_simp
  moreover have "satisfies_constraints ''1.0.0'' [\<lparr>op = ''='', version = ''1.0''\<rparr>] = Inr False"
    by code_simp
  ultimately show ?thesis by blast
qed

theorem compare_versions_prefix_smaller_witness:
  "within_limit ''3.4'' \<and> within_limit ''3.4.7''
   \<and> strict_prefix (digit_run_key ''3.4'') (digit_run_key ''3.4.7'')
   \<and> compare_versions ''3.4'' ''3.4.7'' = Inr (- 1)"
proof -
  have h: "within_limit ''3.4''" "within_limit ''3.4.7''"
    "strict_prefix (digit_run_key ''3.4'') (digit_run_key ''3.4.7'')" by code_simp+
  with compare_versions_prefix_smaller [of "''3.4''" "''3.4.7''"] show ?thesis by blast
qed

text \<open>
  Against claim C10 as it is worded, for every version: the digit-run tuple of a version
  of 4301 digits is a proper prefix of the tuple of the same version with \<open>.0\<close> behind it,
  and the comparison of the two raises.
\<close>

theorem compare_versions_prefix_counterexample:
  "strict_prefix (digit_run_key (replicate 4301 (CHR ''1'')))
     (digit_run_key (replicate 4301 (CHR ''1'') @ ''.0''))
   \<and> compare_versions (replicate 4301 (CHR ''1'')) (replicate 4301 (CHR ''1'') @ ''.0'')
       = Inl (ValueError (int_limit_message 4301))"
proof -
  note a = maximal_digit_runs_long_run and b = maximal_digit_runs_long_run_dot
  have "strict_prefix (digit_run_key (replicate 4301 (CHR ''1'')))
     (digit_run_key (replicate 4301 (CHR ''1'') @ ''.0''))"
    by (simp only: digit_run_key_def a b) simp
  moreover have "compare_versions (replicate 4301 (CHR ''1'')) (replicate 4301 (CHR ''1'') @ ''.0'')
       = Inl (ValueError (int_limit_message 4301))"
    using compare_versions_long_run [of "[]"] by simp
  ultimately show ?thesis by blast
qed

section \<open>Satisfaction\<close>

lemma satisfies_constraints_within:
  "within_limit v \<Longrightarrow> \<forall>c\<in>set cs. within_limit (version c)
   \<Longrightarrow> satisfies_constraints v cs = Inr (\<forall>c\<in>set cs. meets v c)"
proof (induction cs)
  case Nil
  show ?case by simp
next
  case (Cons c cs)
  then have cmp: "compare_versions v (version c)
      = Inr (lex_compare (digit_run_key v) (digit_run_key (version c)))"
    by (simp add: compare_versions_within)
  from Cons have ih: "satisfies_constraints v cs = Inr (\<forall>c\<in>set cs. meets v c)" by simp
  show ?case
    by (simp add: cmp ih meets_def Let_def lex_compare_def)
qed

lemma satisfies_constraints_beyond:
  assumes "\<not> within_limit v" "cs \<noteq> []"
  shows "\<exists>m. satisfies_constraints v cs = Inl (ValueError m)"
proof -
  from assms(2) obtain c cs' where cs: "cs = c # cs'" by (cases cs) auto
  from assms(1) obtain m where "compare_versions v (version c) = Inl (ValueError m)"
    using compare_versions_beyond [of v "version c"] by auto
  with cs show ?thesis by simp
qed

text \<open>
  Claim C2. For a version and constraints whose digit runs have at most 4300 digits each,
  \<open>satisfies_constraints v cs\<close> is True exactly when \<open>v\<close> meets every constraint of \<open>cs\<close>
  under the comparison; the empty list is satisfied by every version; a constraint whose
  operator is none of \<open>=\<close>, \<open>>\<close>, \<open>>=\<close>, \<open><\<close>, \<open><=\<close> makes the result False. For a
  version with a longer digit run and a list that is not empty the function raises
  \<open>ValueError\<close>, whatever the operators.
\<close>

theorem satisfies_constraints_iff_all:
  "(within_limit v \<and> (\<forall>c\<in>set cs. within_limit (version c))
      \<longrightarrow> satisfies_constraints v cs = Inr (\<forall>c\<in>set cs. meets v c))
   \<and> satisfies_constraints v [] = Inr True
   \<and> (within_limit v \<and> (\<forall>c\<in>set cs. within_limit (version c))
      \<and> c \<in> set cs \<and> op c \<notin> {''='', ''>'', ''>='', ''<'', ''<=''}
      \<longrightarrow> satisfies_constraints v cs = Inr False)
   \<and> (\<not> within_limit v \<and> cs \<noteq> [] \<longrightarrow> (\<exists>m. satisfies_constraints v cs = Inl (ValueError m)))"
proof -
  have unknown: "c \<in> set cs \<Longrightarrow> op c \<notin> {''='', ''>'', ''>='', ''<'', ''<=''} \<Longrightarrow> \<not> meets v c"
    by (simp add: meets_def Let_def)
  have "within_limit v \<and> (\<forall>c\<in>set cs. within_limit (version c))
      \<longrightarrow> satisfies_constraints v cs = Inr (\<forall>c\<in>set cs. meets v c)"
    by (simp add: satisfies_constraints_within)
  moreover have "satisfies_constraints v [] = Inr True" by simp
  moreover have "within_limit v \<and> (\<forall>c\<in>set cs. within_limit (version c))
      \<and> c \<in> set cs \<and> op c \<notin> {''='', ''>'', ''>='', ''<'', ''<=''}
      \<longrightarrow> satisfies_constraints v cs = Inr False"
    using unknown satisfies_constraints_within [of v cs] by auto
  moreover have "\<not> within_limit v \<and> cs \<noteq> [] \<longrightarrow> (\<exists>m. satisfies_constraints v cs = Inl (ValueError m))"
    using satisfies_constraints_beyond [of v cs] by blast
  ultimately show ?thesis by blast
qed

theorem satisfies_constraints_iff_all_witness:
  "within_limit ''2.0''
   \<and> list_all (\<lambda>c. within_limit (version c)) [\<lparr>op = ''>='', version = ''1.0''\<rparr>, \<lparr>op = ''!='', version = ''1.0''\<rparr>]
   \<and> \<lparr>op = ''!='', version = ''1.0''\<rparr> \<in> set [\<lparr>op = ''>='', version = ''1.0''\<rparr>, \<lparr>op = ''!='', version = ''1.0''\<rparr>]
   \<and> op \<lparr>op = ''!='', version = ''1.0''\<rparr> \<notin> {''='', ''>'', ''>='', ''<'', ''<=''}
   \<and> satisfies_constraints ''2.0'' [\<lparr>op = ''>='', version = ''1.0''\<rparr>, \<lparr>op = ''!='', version = ''1.0''\<rparr>] = Inr False
   \<and> \<not> within_limit (replicate 4301 (CHR ''1''))
   \<and> (\<exists>m. satisfies_constraints (replicate 4301 (CHR ''1'')) [\<lparr>op = ''>='', version = ''1.0''\<rparr>]
         = Inl (ValueError m))"
proof -
  have w: "within_limit ''2.0''" by code_simp
  have ws: "list_all (\<lambda>c. within_limit (version c))
      [\<lparr>op = ''>='', version = ''1.0''\<rparr>, \<lparr>op = ''!='', version = ''1.0''\<rparr>]"
    by code_simp
  then have ws': "\<forall>c\<in>set [\<lparr>op = ''>='', version = ''1.0''\<rparr>, \<lparr>op = ''!='', version = ''1.0''\<rparr>].
      within_limit (version c)"
    by (simp only: list_all_iff)
  have mem: "\<lparr>op = ''!='', version = ''1.0''\<rparr>
      \<in> set [\<lparr>op = ''>='', version = ''1.0''\<rparr>, \<lparr>op = ''!='', version = ''1.0''\<rparr>]"
    by simp
  have unknown: "op \<lparr>op = ''!='', version = ''1.0''\<rparr> \<notin> {''='', ''>'', ''>='', ''<'', ''<=''}"
    by simp
  have n: "\<not> within_limit (replicate 4301 (CHR ''1''))"
    using within_limit_long_run [of "[]"] by simp
  have ne: "[\<lparr>op = ''>='', version = ''1.0''\<rparr>] \<noteq> []" by simp
  from w ws ws' mem unknown n ne
    satisfies_constraints_iff_all [where c = "\<lparr>op = ''!='', version = ''1.0''\<rparr>"
      and cs = "[\<lparr>op = ''>='', version = ''1.0''\<rparr>, \<lparr>op = ''!='', version = ''1.0''\<rparr>]" and v = "''2.0''"]
    satisfies_constraints_iff_all [where cs = "[\<lparr>op = ''>='', version = ''1.0''\<rparr>]"
      and v = "replicate 4301 (CHR ''1'')"]
  show ?thesis by blast
qed

text \<open>
  Against claim C2 as it is worded, for every version: with a version of 4301 digits the
  function returns neither True nor False, also for a constraint with an operator that is
  not recognised.
\<close>

theorem satisfies_constraints_limit_counterexample:
  "satisfies_constraints (replicate 4301 (CHR ''1'')) [\<lparr>op = ''!='', version = ''1.0''\<rparr>]
     = Inl (ValueError (int_limit_message 4301))"
  using compare_versions_long_run [of "[]" "''1.0''"] by simp

section \<open>Caret and tilde ranges\<close>

lemma strip_no_edge_space:
  assumes "s \<noteq> []" "\<not> is_space (hd s)" "\<not> is_space (last s)"
  shows "strip s = s"
proof -
  from assms have "dropWhile is_space s = s" by (cases s) simp_all
  moreover from assms have "dropWhile is_space (rev s) = rev s"
    by (cases "rev s") (simp_all add: hd_rev [symmetric])
  ultimately show ?thesis by (simp add: strip_def)
qed

lemma findall_digits_dotted:
  "findall_digits (dotted x y z) = [str_nat x, str_nat y, str_nat z]"
proof -
  have "findall_digits (str_nat z) = [str_nat z]"
    using findall_digits_run [of "str_nat z" "[]"] str_nat_digits [of z] by simp
  then have "findall_digits (str_nat y @ CHR ''.'' # str_nat z) = [str_nat y, str_nat z]"
    using findall_digits_run [of "str_nat y" "CHR ''.'' # str_nat z"] str_nat_digits [of y]
    by (simp add: is_digit_def)
  then have "findall_digits (str_nat x @ CHR ''.'' # str_nat y @ CHR ''.'' # str_nat z)
      = [str_nat x, str_nat y, str_nat z]"
    using findall_digits_run [of "str_nat x" "CHR ''.'' # str_nat y @ CHR ''.'' # str_nat z"]
      str_nat_digits [of x]
    by (simp add: is_digit_def)
  then show ?thesis by (simp add: dotted_def)
qed

lemma parse_version_key_dotted:
  "decimal_within_limit x \<Longrightarrow> decimal_within_limit y \<Longrightarrow> decimal_within_limit z
   \<Longrightarrow> parse_version_key (dotted x y z) = Inr [int x, int y, int z]"
  by (simp add: parse_version_key_def findall_digits_dotted py_int_within digits_value_str_nat
      decimal_within_limit_def)

lemma parse_version_key_dotted_beyond:
  assumes "\<not> (decimal_within_limit x \<and> decimal_within_limit y \<and> decimal_within_limit z)"
  shows "\<exists>m. parse_version_key (dotted x y z) = Inl (ValueError m)"
proof -
  from assms have "\<not> list_all (\<lambda>r. length r \<le> int_max_str_digits) [str_nat x, str_nat y, str_nat z]"
    by (auto simp: decimal_within_limit_def)
  from map_exn_py_int_beyond [OF this] show ?thesis
    by (simp add: parse_version_key_def findall_digits_dotted)
qed

lemma dotted_edges:
  "dotted x y z \<noteq> []" "is_digit (hd (dotted x y z))" "is_digit (last (dotted x y z))"
  using str_nat_digits [of x] str_nat_digits [of z]
  by (auto simp: dotted_def hd_append)

lemma strip_dotted: "strip (dotted x y z) = dotted x y z"
  using dotted_edges [of x y z] by (simp add: strip_no_edge_space is_digit_not_space)

lemma strip_prefixed_dotted:
  assumes "\<not> is_space c"
  shows "strip (c # dotted x y z) = c # dotted x y z"
  using dotted_edges [of x y z] assms
  by (intro strip_no_edge_space) (simp_all add: is_digit_not_space)

lemma str_int_succ:
  "str_int (int n + 1) =
     (if decimal_within_limit (n + 1) then Inr (str_nat (n + 1)) else Inl (ValueError str_limit_message))"
proof -
  have eq: "int n + 1 = int (n + 1)" by simp
  show ?thesis
  proof (cases "decimal_within_limit (n + 1)")
    case True
    then show ?thesis
      unfolding eq using str_int_within [of "n + 1"] by (simp add: decimal_within_limit_def)
  next
    case False
    then show ?thesis
      unfolding eq using str_int_beyond [of "n + 1"] by (simp add: decimal_within_limit_def)
  qed
qed

lemma dotted_zeros:
  "dotted n 0 0 = str_nat n @ ''.0.0''" "dotted x n 0 = str_nat x @ ''.'' @ str_nat n @ ''.0''"
  by (simp_all add: dotted_def str_nat_0)

lemma expand_caret_dotted:
  assumes "decimal_within_limit x" "decimal_within_limit y" "decimal_within_limit z"
  shows "expand_semver_compat ''^'' (dotted x y z) =
     (if decimal_within_limit (if x \<noteq> 0 then x + 1 else y + 1)
      then Inr [\<lparr>op = ''>='', version = dotted x y z\<rparr>,
                \<lparr>op = ''<'', version = (if x \<noteq> 0 then dotted (x + 1) 0 0 else dotted 0 (y + 1) 0)\<rparr>]
      else Inl (ValueError str_limit_message))"
proof -
  have e: "expand_semver_compat ''^'' (dotted x y z) =
     (case (if x \<noteq> 0
            then (case str_int (int x + 1) of Inl e \<Rightarrow> Inl e | Inr a \<Rightarrow> Inr (a @ ''.0.0''))
            else (case str_int (int y + 1) of Inl e \<Rightarrow> Inl e | Inr b \<Rightarrow> Inr (''0.'' @ b @ ''.0''))) of
        Inl e \<Rightarrow> Inl e
      | Inr u \<Rightarrow> Inr [\<lparr>op = ''>='', version = dotted x y z\<rparr>, \<lparr>op = ''<'', version = u\<rparr>])"
    by (simp add: expand_semver_compat_def parse_version_key_dotted [OF assms] Let_def)
  have z: "dotted 0 (y + 1) 0 = ''0.'' @ str_nat (y + 1) @ ''.0''"
    "dotted (x + 1) 0 0 = str_nat (x + 1) @ ''.0.0''"
    by (simp_all add: dotted_def str_nat_0)
  show ?thesis
    unfolding e str_int_succ z by simp
qed

lemma expand_tilde_dotted:
  assumes "decimal_within_limit x" "decimal_within_limit y" "decimal_within_limit z"
  shows "expand_semver_compat ''~'' (dotted x y z) =
     (if decimal_within_limit (y + 1)
      then Inr [\<lparr>op = ''>='', version = dotted x y z\<rparr>, \<lparr>op = ''<'', version = dotted x (y + 1) 0\<rparr>]
      else Inl (ValueError str_limit_message))"
proof -
  have x: "str_int (int x) = Inr (str_nat x)"
    using assms(1) by (simp add: str_int_within decimal_within_limit_def)
  have e: "expand_semver_compat ''~'' (dotted x y z) =
     (case (case str_int (int x) of
              Inl e \<Rightarrow> Inl e
            | Inr a \<Rightarrow>
                (case str_int (int y + 1) of Inl e \<Rightarrow> Inl e | Inr b \<Rightarrow> Inr (a @ ''.'' @ b @ ''.0''))) of
        Inl e \<Rightarrow> Inl e
      | Inr u \<Rightarrow> Inr [\<lparr>op = ''>='', version = dotted x y z\<rparr>, \<lparr>op = ''<'', version = u\<rparr>])"
    by (simp add: expand_semver_compat_def parse_version_key_dotted [OF assms] Let_def)
  have z: "dotted x (y + 1) 0 = str_nat x @ ''.'' @ str_nat (y + 1) @ ''.0''"
    by (simp add: dotted_def str_nat_0)
  show ?thesis
    unfolding e x str_int_succ z by simp
qed

lemma expand_dotted_beyond:
  assumes "\<not> (decimal_within_limit x \<and> decimal_within_limit y \<and> decimal_within_limit z)"
  shows "\<exists>m. expand_semver_compat opr (dotted x y z) = Inl (ValueError m)"
  using parse_version_key_dotted_beyond [OF assms] by (auto simp: expand_semver_compat_def)

lemma parse_constraints_caret_or_tilde:
  assumes "c = CHR ''^'' \<or> c = CHR ''~''"
  shows "parse_constraints (c # dotted x y z) = expand_semver_compat [c] (dotted x y z)"
proof -
  from assms have "\<not> is_space c" by (auto simp: is_space_def)
  then have "strip (c # dotted x y z) = c # dotted x y z" by (rule strip_prefixed_dotted)
  with assms show ?thesis
    by (auto simp: parse_constraints_def Let_def startswith_def endswith_def strip_dotted)
qed

lemma str_nat_power10: "str_nat (10 ^ n) = CHR ''1'' # replicate n (CHR ''0'')"
proof (induction n)
  case 0
  show ?case by (simp add: str_nat.simps [of "Suc 0"] digit_char_def)
next
  case (Suc n)
  have "\<not> (10 :: nat) ^ Suc n < 10" by simp
  then have "str_nat (10 ^ Suc n) = str_nat (10 ^ n) @ [digit_char 0]"
    by (subst str_nat.simps) simp
  with Suc show ?case by (simp add: digit_char_def replicate_append_same)
qed

lemma length_str_nat_power10: "length (str_nat (10 ^ n)) = Suc n"
  by (simp only: str_nat_power10 length_Cons length_replicate)

lemma decimal_beyond_limit: "\<not> decimal_within_limit (10 ^ 4300)"
  unfolding decimal_within_limit_def length_str_nat_power10 int_max_str_digits_def by simp

lemma parse_version_key_dotted_first_beyond:
  "\<not> decimal_within_limit x
   \<Longrightarrow> parse_version_key (dotted x y z) = Inl (ValueError (int_limit_message (length (str_nat x))))"
  by (simp add: parse_version_key_def findall_digits_dotted py_int_def decimal_within_limit_def)

text \<open>
  Claim C1. For a version \<open>x.y.z\<close> whose three numbers have at most 4300 digits each, as
  has the number that is raised by one: the caret range \<open>^x.y.z\<close> parses to exactly the
  two constraints \<open>>= x.y.z\<close> and \<open>< (x+1).0.0\<close> when \<open>x\<close> is not zero, and to
  \<open>>= x.y.z\<close> and \<open>< 0.(y+1).0\<close> when it is; the tilde range \<open>~x.y.z\<close> parses to exactly
  \<open>>= x.y.z\<close> and \<open>< x.(y+1).0\<close>. For every other version \<open>x.y.z\<close> the parser raises
  \<open>ValueError\<close>.
\<close>

theorem parse_constraints_caret_tilde:
  "(decimal_within_limit x \<and> decimal_within_limit y \<and> decimal_within_limit z
      \<and> decimal_within_limit (if x \<noteq> 0 then x + 1 else y + 1) \<longrightarrow>
    parse_constraints (''^'' @ dotted x y z) =
      Inr [\<lparr>op = ''>='', version = dotted x y z\<rparr>,
           \<lparr>op = ''<'', version = (if x \<noteq> 0 then dotted (x + 1) 0 0 else dotted 0 (y + 1) 0)\<rparr>])
   \<and> (decimal_within_limit x \<and> decimal_within_limit y \<and> decimal_within_limit z
      \<and> decimal_within_limit (y + 1) \<longrightarrow>
    parse_constraints (''~'' @ dotted x y z) =
      Inr [\<lparr>op = ''>='', version = dotted x y z\<rparr>, \<lparr>op = ''<'', version = dotted x (y + 1) 0\<rparr>])
   \<and> (\<not> (decimal_within_limit x \<and> decimal_within_limit y \<and> decimal_within_limit z
         \<and> decimal_within_limit (if x \<noteq> 0 then x + 1 else y + 1)) \<longrightarrow>
    (\<exists>m. parse_constraints (''^'' @ dotted x y z) = Inl (ValueError m)))
   \<and> (\<not> (decimal_within_limit x \<and> decimal_within_limit y \<and> decimal_within_limit z
         \<and> decimal_within_limit (y + 1)) \<longrightarrow>
    (\<exists>m. parse_constraints (''~'' @ dotted x y z) = Inl (ValueError m)))"
proof -
  have caret: "parse_constraints (''^'' @ dotted x y z) = expand_semver_compat ''^'' (dotted x y z)"
    using parse_constraints_caret_or_tilde [of "CHR ''^''" x y z] by simp
  have tilde: "parse_constraints (''~'' @ dotted x y z) = expand_semver_compat ''~'' (dotted x y z)"
    using parse_constraints_caret_or_tilde [of "CHR ''~''" x y z] by simp
  show ?thesis
  proof (cases "decimal_within_limit x \<and> decimal_within_limit y \<and> decimal_within_limit z")
    case True
    then have w: "decimal_within_limit x" "decimal_within_limit y" "decimal_within_limit z"
      by simp_all
    show ?thesis
      unfolding caret tilde expand_caret_dotted [OF w] expand_tilde_dotted [OF w]
      using True by simp
  next
    case False
    from expand_dotted_beyond [OF False] show ?thesis
      unfolding caret tilde using False by blast
  qed
qed

theorem parse_constraints_caret_tilde_witness:
  "decimal_within_limit 1 \<and> decimal_within_limit 2 \<and> decimal_within_limit 3
   \<and> decimal_within_limit (if (1 :: nat) \<noteq> 0 then 1 + 1 else 2 + 1) \<and> decimal_within_limit (2 + 1)
   \<and> parse_constraints (''^'' @ dotted 1 2 3) =
      Inr [\<lparr>op = ''>='', version = dotted 1 2 3\<rparr>,
           \<lparr>op = ''<'', version = (if (1 :: nat) \<noteq> 0 then dotted (1 + 1) 0 0 else dotted 0 (2 + 1) 0)\<rparr>]
   \<and> parse_constraints (''~'' @ dotted 1 2 3) =
      Inr [\<lparr>op = ''>='', version = dotted 1 2 3\<rparr>, \<lparr>op = ''<'', version = dotted 1 (2 + 1) 0\<rparr>]
   \<and> dotted 1 2 3 = ''1.2.3''
   \<and> \<not> (decimal_within_limit 0 \<and> decimal_within_limit (10 ^ 4300) \<and> decimal_within_limit 0
         \<and> decimal_within_limit (if (0 :: nat) \<noteq> 0 then 0 + 1 else 10 ^ 4300 + 1))
   \<and> \<not> (decimal_within_limit 0 \<and> decimal_within_limit (10 ^ 4300) \<and> decimal_within_limit 0
         \<and> decimal_within_limit (10 ^ 4300 + 1))
   \<and> (\<exists>m. parse_constraints (''^'' @ dotted 0 (10 ^ 4300) 0) = Inl (ValueError m))
   \<and> (\<exists>m. parse_constraints (''~'' @ dotted 0 (10 ^ 4300) 0) = Inl (ValueError m))"
proof -
  have w: "decimal_within_limit 1" "decimal_within_limit 2" "decimal_within_limit 3"
    "decimal_within_limit (if (1 :: nat) \<noteq> 0 then 1 + 1 else 2 + 1)" "decimal_within_limit (2 + 1)"
    by code_simp+
  have d: "dotted 1 2 3 = ''1.2.3''" by code_simp
  note n = decimal_beyond_limit
  from w d n parse_constraints_caret_tilde [of 1 2 3] parse_constraints_caret_tilde [of 0 "10 ^ 4300" 0]
  show ?thesis by blast
qed

text \<open>
  Against claim C1 as it is worded, for every version \<open>x.y.z\<close>: with \<open>x\<close> the number
  \<open>10\<^sup>4\<^sup>3\<^sup>0\<^sup>0\<close>, of 4301 digits, the caret range and the tilde range parse to nothing, as
  the conversion of \<open>x\<close> to an integer raises.
\<close>

theorem parse_constraints_caret_tilde_counterexample:
  "parse_constraints (''^'' @ dotted (10 ^ 4300) 0 0) = Inl (ValueError (int_limit_message 4301))
   \<and> parse_constraints (''~'' @ dotted (10 ^ 4300) 0 0) = Inl (ValueError (int_limit_message 4301))"
proof -
  have "Suc 4300 = 4301" by simp
  then have "parse_version_key (dotted (10 ^ 4300) 0 0) = Inl (ValueError (int_limit_message 4301))"
    using parse_version_key_dotted_first_beyond [OF decimal_beyond_limit, of 0 0]
    by (simp only: length_str_nat_power10)
  then have "expand_semver_compat opr (dotted (10 ^ 4300) 0 0) = Inl (ValueError (int_limit_message 4301))"
    for opr
    unfolding expand_semver_compat_def by (simp only: sum.case)
  then have "parse_constraints (CHR ''^'' # dotted (10 ^ 4300) 0 0) = Inl (ValueError (int_limit_message 4301))"
    "parse_constraints (CHR ''~'' # dotted (10 ^ 4300) 0 0) = Inl (ValueError (int_limit_message 4301))"
    using parse_constraints_caret_or_tilde [of "CHR ''^''" "10 ^ 4300" 0 0]
      parse_constraints_caret_or_tilde [of "CHR ''~''" "10 ^ 4300" 0 0]
    by (simp_all only: simp_thms)
  then show ?thesis by (simp only: append_Cons append_Nil simp_thms)
qed






section \<open>Bracketed intervals\<close>

lemma split_comma_once_at:
  assumes "CHR '','' \<notin> set lo"
  shows "split_comma_once (lo @ '','' @ hi) = [lo, hi]"
proof -
  from assms have "\<forall>c\<in>set lo. c \<noteq> CHR '',''" by auto
  then show ?thesis
    by (simp add: split_comma_once_def takeWhile_append2 dropWhile_append2)
qed

lemma startswith_Cons: "startswith (c # s) [d] \<longleftrightarrow> d = c"
  by (simp add: startswith_def)

lemma endswith_snoc: "endswith (s @ [c]) [d] \<longleftrightarrow> d = c"
  by (auto simp: endswith_def suffix_def)

lemma if_not_P_swap: "(if x \<noteq> y then a else b) = (if x = y then b else a)"
  by simp

lemma parse_constraints_bracketed:
  assumes lb: "lb = CHR ''['' \<or> lb = CHR ''(''"
    and rb: "rb = CHR '']'' \<or> rb = CHR '')''"
    and lo: "CHR '','' \<notin> set lo"
  shows "parse_constraints ([lb] @ lo @ '','' @ hi @ [rb]) =
     Inr ((if strip lo = [] then []
           else [\<lparr>op = (if lb = CHR ''['' then ''>='' else ''>''), version = strip lo\<rparr>])
          @ (if strip hi = [] then []
             else [\<lparr>op = (if rb = CHR '']'' then ''<='' else ''<''), version = strip hi\<rparr>]))"
proof -
  define s where "s = [lb] @ lo @ '','' @ hi @ [rb]"
  have s: "s = lb # (lo @ '','' @ hi) @ [rb]" by (simp add: s_def)
  from lb rb have "\<not> is_space lb" "\<not> is_space rb" by (auto simp: is_space_def)
  then have strip: "strip s = s"
    unfolding s by (intro strip_no_edge_space) simp_all
  have inner: "butlast (tl s) = lo @ '','' @ hi"
    unfolding s by (simp only: list.sel butlast_snoc)
  have sw: "startswith s ''['' \<longleftrightarrow> lb = CHR ''[''" "startswith s ''('' \<longleftrightarrow> lb = CHR ''(''"
    unfolding s by (auto simp: startswith_def)
  have ew: "endswith s '']'' \<longleftrightarrow> rb = CHR '']''" "endswith s '')'' \<longleftrightarrow> rb = CHR '')''"
    unfolding s using endswith_snoc [of "lb # lo @ '','' @ hi" rb] by auto
  have cond: "(startswith s ''['' \<or> startswith s ''('') \<and> (endswith s '']'' \<or> endswith s '')'')
      \<and> CHR '','' \<in> set s"
    using lb rb unfolding sw ew by (simp add: s)
  have ne: "\<not> (s = [] \<or> s = ''*'')" using lb by (auto simp: s)
  have "parse_constraints s =
     Inr ((if strip lo \<noteq> [] then [\<lparr>op = (if startswith s ''['' then ''>='' else ''>''), version = strip lo\<rparr>]
           else [])
          @ (if strip hi \<noteq> [] then [\<lparr>op = (if endswith s '']'' then ''<='' else ''<''), version = strip hi\<rparr>]
             else []))"
    unfolding parse_constraints_def strip Let_def inner split_comma_once_at [OF lo]
    by (simp only: cond ne if_True if_False list.map list.case simp_thms)
  then have "parse_constraints s =
     Inr ((if strip lo \<noteq> [] then [\<lparr>op = (if lb = CHR ''['' then ''>='' else ''>''), version = strip lo\<rparr>]
           else [])
          @ (if strip hi \<noteq> [] then [\<lparr>op = (if rb = CHR '']'' then ''<='' else ''<''), version = strip hi\<rparr>]
             else []))"
    by (simp only: sw ew)
  then have "parse_constraints s =
     Inr ((if strip lo = [] then []
           else [\<lparr>op = (if lb = CHR ''['' then ''>='' else ''>''), version = strip lo\<rparr>])
          @ (if strip hi = [] then []
             else [\<lparr>op = (if rb = CHR '']'' then ''<='' else ''<''), version = strip hi\<rparr>]))"
    by (simp only: if_not_P_swap)
  then show ?thesis by (simp only: s_def)
qed

text \<open>
  Claim C4. A bracketed interval, the lower bound before the first comma: the result has a
  constraint for the lower bound, with \<open>>=\<close> behind \<open>[\<close> and \<open>>\<close> behind \<open>(\<close>, unless that
  bound is omitted, then a constraint for the upper bound, with \<open><=\<close> before \<open>]\<close> and \<open><\<close>
  before \<open>)\<close>, unless that bound is omitted, and nothing else. \<open>"[1.0,2.0)"\<close> parses to
  \<open>>=1.0\<close> and \<open><2.0\<close>, which \<open>"1.9.9"\<close> satisfies and \<open>"2.0.0"\<close> does not.
\<close>

theorem parse_constraints_interval:
  "((lb = CHR ''['' \<or> lb = CHR ''('') \<and> (rb = CHR '']'' \<or> rb = CHR '')'') \<and> CHR '','' \<notin> set lo \<longrightarrow>
     parse_constraints ([lb] @ lo @ '','' @ hi @ [rb]) =
       Inr ((if strip lo = [] then []
             else [\<lparr>op = (if lb = CHR ''['' then ''>='' else ''>''), version = strip lo\<rparr>])
            @ (if strip hi = [] then []
               else [\<lparr>op = (if rb = CHR '']'' then ''<='' else ''<''), version = strip hi\<rparr>])))
   \<and> parse_constraints ''[1.0,2.0)'' = Inr [\<lparr>op = ''>='', version = ''1.0''\<rparr>, \<lparr>op = ''<'', version = ''2.0''\<rparr>]
   \<and> satisfies_constraints ''1.9.9'' [\<lparr>op = ''>='', version = ''1.0''\<rparr>, \<lparr>op = ''<'', version = ''2.0''\<rparr>]
       = Inr True
   \<and> satisfies_constraints ''2.0.0'' [\<lparr>op = ''>='', version = ''1.0''\<rparr>, \<lparr>op = ''<'', version = ''2.0''\<rparr>]
       = Inr False"
proof -
  have "parse_constraints ''[1.0,2.0)'' = Inr [\<lparr>op = ''>='', version = ''1.0''\<rparr>, \<lparr>op = ''<'', version = ''2.0''\<rparr>]"
    by code_simp
  moreover have "satisfies_constraints ''1.9.9'' [\<lparr>op = ''>='', version = ''1.0''\<rparr>, \<lparr>op = ''<'', version = ''2.0''\<rparr>]
      = Inr True"
    by code_simp
  moreover have "satisfies_constraints ''2.0.0'' [\<lparr>op = ''>='', version = ''1.0''\<rparr>, \<lparr>op = ''<'', version = ''2.0''\<rparr>]
      = Inr False"
    by code_simp
  ultimately show ?thesis
    using parse_constraints_bracketed [of lb rb lo hi] by blast
qed

theorem parse_constraints_interval_witness:
  "(CHR ''('' = CHR ''['' \<or> CHR ''('' = CHR ''('') \<and> (CHR '']'' = CHR '']'' \<or> CHR '']'' = CHR '')'')
   \<and> CHR '','' \<notin> set '' 1.0 ''
   \<and> parse_constraints ''( 1.0 ,]'' = Inr [\<lparr>op = ''>'', version = ''1.0''\<rparr>]"
proof -
  have h: "(CHR ''('' = CHR ''['' \<or> CHR ''('' = CHR ''('') \<and> (CHR '']'' = CHR '']'' \<or> CHR '']'' = CHR '')'')
      \<and> CHR '','' \<notin> set '' 1.0 ''"
    by simp
  have lo: "strip '' 1.0 '' = ''1.0''" by code_simp
  have hi: "strip [] = []" by code_simp
  from h parse_constraints_interval [of "CHR ''(''" "CHR '']''" "'' 1.0 ''" "[]"]
  have "parse_constraints ([CHR ''(''] @ '' 1.0 '' @ '','' @ [] @ [CHR '']'']) =
       Inr ((if strip '' 1.0 '' = [] then []
             else [\<lparr>op = (if CHR ''('' = CHR ''['' then ''>='' else ''>''), version = strip '' 1.0 ''\<rparr>])
            @ (if strip [] = [] then []
               else [\<lparr>op = (if CHR '']'' = CHR '']'' then ''<='' else ''<''), version = strip []\<rparr>]))"
    by blast
  then have "parse_constraints ''( 1.0 ,]'' = Inr [\<lparr>op = ''>'', version = ''1.0''\<rparr>]"
    unfolding lo hi by simp
  with h show ?thesis by blast
qed

section \<open>The parser and its failures\<close>




















section \<open>The extractors and the platform's own identifiers\<close>

text \<open>
  Claim C9, where the code departs from it. The Forge extractor passes over
  \<open>minecraft\<close> only and returns a mandatory dependency on the loader, \<open>forge\<close>; the Quilt
  extractor passes over \<open>minecraft\<close> and \<open>java\<close> and returns the loader, \<open>quilt_loader\<close>;
  the Fabric extractor passes over the game, the language runtime and its loader,
  \<open>fabricloader\<close>.
\<close>

theorem extractors_keep_loader_ids:
  "read_forge_dependencies
     (Some [(''mods'', JList [JDict [(''modId'', JStr ''mymod'')]]),
            (''dependencies'', JDict [(''mymod'', JList
               [JDict [(''modId'', JStr ''forge''), (''mandatory'', JBool True),
                       (''versionRange'', JStr ''[47,)'')],
                JDict [(''modId'', JStr ''minecraft''), (''mandatory'', JBool True),
                       (''versionRange'', JStr ''[1.20.1]'')]])])])
     = Inr [\<lparr>mod_id = ''forge'', version_range = ''[47,)'', modrinth = None, curseforge = None\<rparr>]
   \<and> quilt_dependencies [] [JStr ''quilt_loader'', JStr ''minecraft'', JStr ''java'']
     = [\<lparr>mod_id = ''quilt_loader'', version_range = ''*'', modrinth = None, curseforge = None\<rparr>]
   \<and> fabric_dependencies []
       [(''fabricloader'', JStr ''>=0.15''), (''minecraft'', JStr ''1.20.1''), (''java'', JStr ''>=17'')]
     = []"
  by code_simp

section \<open>Selection by publication date\<close>

text \<open>
  Claim C6, where the code departs from it. A candidate with no \<open>date_published\<close> gets the
  key \<open>datetime.min\<close>, which is naive, while a date with the suffix \<open>Z\<close> parses to an aware
  \<open>datetime\<close>. With one candidate of each kind the sort compares the two keys, and
  \<open>resolve_modrinth\<close> raises \<open>TypeError\<close>, whatever the policy, instead of taking the
  candidate without a date for the oldest.
\<close>

theorem resolve_modrinth_mixed_dates_raise:
  "fromisoformat E ''2024-01-01T00:00:00+00:00'' = Some (Aware t) \<longrightarrow>
   resolve_modrinth E \<lparr>mod_id = ''lib'', version_range = ''*'', modrinth = Some ''lib'', curseforge = None\<rparr>
     loader minecraft_version policy
     (Inr (JList [JDict [(''version_number'', JStr ''1.0.0''),
                         (''date_published'', JStr ''2024-01-01T00:00:00Z'')],
                  JDict [(''version_number'', JStr ''1.1.0'')]]))
   = Inl (TypeError (''can'' @ apostrophe @ ''t compare offset-naive and offset-aware datetimes''))"
proof
  assume p: "fromisoformat E ''2024-01-01T00:00:00+00:00'' = Some (Aware t)"
  have pc: "parse_constraints ''*'' = Inr []" by code_simp
  have rz: "replace_Z ''2024-01-01T00:00:00Z'' = ''2024-01-01T00:00:00+00:00''" by code_simp
  have k1: "item_dt E ''date_published'' [(''version_number'', JStr ''1.0.0''),
      (''date_published'', JStr ''2024-01-01T00:00:00Z'')] = Aware t"
    by (simp add: item_dt_def dict_get_def rz p)
  have k2: "item_dt E ''date_published'' [(''version_number'', JStr ''1.1.0'')] = Naive 0"
    by (simp add: item_dt_def dict_get_def datetime_min_def)
  show "resolve_modrinth E \<lparr>mod_id = ''lib'', version_range = ''*'', modrinth = Some ''lib'', curseforge = None\<rparr>
     loader minecraft_version policy
     (Inr (JList [JDict [(''version_number'', JStr ''1.0.0''),
                         (''date_published'', JStr ''2024-01-01T00:00:00Z'')],
                  JDict [(''version_number'', JStr ''1.1.0'')]]))
   = Inl (TypeError (''can'' @ apostrophe @ ''t compare offset-naive and offset-aware datetimes''))"
    by (simp add: resolve_modrinth_def opt_truthy_def pc dict_get_def list_sort_def k1 k2)
qed

theorem resolve_modrinth_mixed_dates_raise_witness:
  "fromisoformat \<lparr>fromisoformat = (\<lambda>s. if s = ''2024-01-01T00:00:00+00:00'' then Some (Aware 0) else None),
                  repr_str = id, str_container = (\<lambda>v. Inr []), json_dumps = id\<rparr>
     ''2024-01-01T00:00:00+00:00'' = Some (Aware 0)
   \<and> resolve_modrinth
     \<lparr>fromisoformat = (\<lambda>s. if s = ''2024-01-01T00:00:00+00:00'' then Some (Aware 0) else None),
      repr_str = id, str_container = (\<lambda>v. Inr []), json_dumps = id\<rparr>
     \<lparr>mod_id = ''lib'', version_range = ''*'', modrinth = Some ''lib'', curseforge = None\<rparr>
     ''fabric'' ''1.20.1'' ''min''
     (Inr (JList [JDict [(''version_number'', JStr ''1.0.0''),
                         (''date_published'', JStr ''2024-01-01T00:00:00Z'')],
                  JDict [(''version_number'', JStr ''1.1.0'')]]))
   = Inl (TypeError (''can'' @ apostrophe @ ''t compare offset-naive and offset-aware datetimes''))"
proof -
  let ?E = "\<lparr>fromisoformat = (\<lambda>s. if s = ''2024-01-01T00:00:00+00:00'' then Some (Aware 0) else None),
      repr_str = id, str_container = (\<lambda>v. Inr []), json_dumps = id\<rparr>"
  have h: "fromisoformat ?E ''2024-01-01T00:00:00+00:00'' = Some (Aware 0)" by simp
  with resolve_modrinth_mixed_dates_raise [of ?E 0 "''fabric''" "''1.20.1''" "''min''"]
  show ?thesis by blast
qed

text \<open>
  When the keys are all aware, or all naive, no comparison raises and the sort is the
  stable sort by the instant: the first element is then an earliest one, the last a latest
  one.
\<close>

lemma insert_after_insort:
  "insert_after g x (insort_key g y zs) = insort_key g y (insert_after g x zs)"
  by (induction zs) auto

lemma insert_after_sort_key: "insert_after g x (sort_key g ys) = sort_key g (ys @ [x])"
  by (induction ys) (simp_all add: insert_after_insort)

lemma insert_sorted_comparable:
  assumes "\<forall>y\<in>set ys. datetime_lt (f x) (f y) = Inr (g x < g y)"
  shows "insert_sorted f x ys = Inr (insert_after g x ys)"
  using assms by (induction ys) auto

lemma sort_into_comparable:
  assumes "\<forall>x\<in>set (ys @ xs). \<forall>y\<in>set (ys @ xs). datetime_lt (f x) (f y) = Inr (g x < g y)"
  shows "sort_into f (sort_key g ys) xs = Inr (sort_key g (ys @ xs))"
  using assms
proof (induction xs arbitrary: ys)
  case Nil
  then show ?case by simp
next
  case (Cons x xs)
  have "insert_sorted f x (sort_key g ys) = Inr (insert_after g x (sort_key g ys))"
    using Cons.prems by (intro insert_sorted_comparable) simp
  moreover have "sort_into f (sort_key g (ys @ [x])) xs = Inr (sort_key g ((ys @ [x]) @ xs))"
    using Cons.prems by (intro Cons.IH) simp
  ultimately show ?case by (simp add: insert_after_sort_key)
qed

lemma list_sort_comparable:
  assumes "\<forall>x\<in>set xs. \<forall>y\<in>set xs. datetime_lt (f x) (f y) = Inr (g x < g y)"
  shows "list_sort f xs = Inr (sort_key g xs)"
  using sort_into_comparable [of "[]" xs f g] assms by (simp add: list_sort_def)

lemma list_sort_aware:
  assumes "\<forall>x\<in>set xs. f x = Aware (g x)"
  shows "list_sort f xs = Inr (sort_key g xs)"
  using assms by (intro list_sort_comparable) simp

lemma list_sort_naive:
  assumes "\<forall>x\<in>set xs. f x = Naive (g x)"
  shows "list_sort f xs = Inr (sort_key g xs)"
  using assms by (intro list_sort_comparable) simp

text \<open>
  The example of the claim: of two candidates whose dates parse to aware instants, the
  policy \<open>min\<close> selects the one published earlier and every other policy the one published
  later, in whatever order the catalog lists them.
\<close>

lemma resolve_modrinth_two_dated:
  assumes "fromisoformat E (replace_Z d1) = Some (Aware t1)" "fromisoformat E (replace_Z d2) = Some (Aware t2)"
    "t1 < t2"
  shows "resolve_modrinth E \<lparr>mod_id = ''lib'', version_range = ''*'', modrinth = Some ''lib'', curseforge = None\<rparr>
     loader minecraft_version policy
     (Inr (JList [JDict [(''version_number'', JStr ''1.1.0''), (''date_published'', JStr d2)],
                  JDict [(''version_number'', JStr ''1.0.0''), (''date_published'', JStr d1)]]))
   = Inr \<lparr>source_type = ''modrinth'', name = ''lib'', modrinth_id = Some ''lib'',
          modrinth_version = Some (if policy = ''min'' then ''1.0.0'' else ''1.1.0''),
          curseforge_id = None, curseforge_file_id = None\<rparr>"
proof -
  have pc: "parse_constraints ''*'' = Inr []" by code_simp
  have k1: "item_dt E ''date_published'' [(''version_number'', JStr ''1.0.0''), (''date_published'', JStr d1)] = Aware t1"
    by (simp add: item_dt_def dict_get_def assms)
  have k2: "item_dt E ''date_published'' [(''version_number'', JStr ''1.1.0''), (''date_published'', JStr d2)] = Aware t2"
    by (simp add: item_dt_def dict_get_def assms)
  show ?thesis
    using assms(3)
    by (simp add: resolve_modrinth_def opt_truthy_def pc dict_get_def list_sort_def k1 k2 py_str_def)
qed

section \<open>A failed dependency fails the run\<close>











lemma resolve_curseforge_reaches_narrowing:
  assumes "opt_truthy (curseforge dep)" "list_all is_digit (opt_str (curseforge dep))"
    "curseforge_expected_loader_label E loader = Inr label"
    "response = Inr (JDict p)" "dict_get p ''data'' = JList data"
    "curseforge_filtered minecraft_version label data = filtered" "filtered \<noteq> []"
  shows "resolve_curseforge E dep loader minecraft_version policy response =
     (case curseforge_narrowed E dep filtered of
        Inl e \<Rightarrow> Inl e
      | Inr narrowed \<Rightarrow> curseforge_chosen E dep policy narrowed)"
proof -
  from assms(1) have "opt_str (curseforge dep) \<noteq> []"
    by (auto simp: opt_truthy_def opt_str_def split: option.splits)
  with assms show ?thesis
    by (simp add: resolve_curseforge_def Let_def)
qed








section \<open>Exact ranges on the file catalog\<close>

lemma filter_exn_total:
  "\<forall>x\<in>set xs. f x = Inr (g x) \<Longrightarrow> filter_exn f xs = Inr (filter g xs)"
  by (induction xs) simp_all

lemma curseforge_item_matches_names:
  assumes "text_or_empty E item ''fileName'' = Inr fn" "text_or_empty E item ''displayName'' = Inr dn"
  shows "curseforge_item_matches E needle item = Inr (contains fn needle \<or> contains dn needle)"
  using assms by (simp add: curseforge_item_matches_def)

lemma curseforge_narrowed_exact:
  assumes "parse_constraints (strip (version_range dep)) = Inr [c]" "op c = ''=''"
    "\<forall>item\<in>set filtered. text_or_empty E item ''fileName'' = Inr (fname item)
        \<and> text_or_empty E item ''displayName'' = Inr (dname item)"
  shows "curseforge_narrowed E dep filtered =
     (if filter (\<lambda>item. contains (fname item) (version c) \<or> contains (dname item) (version c)) filtered = []
      then Inl (RuntimeError
         (''CurseForge dependency '' @ mod_id dep @ '' has exact range '' @ apostrophe
          @ version_range dep @ apostrophe @ '' but no fileName/displayName contains it''))
      else Inr (filter (\<lambda>item. contains (fname item) (version c) \<or> contains (dname item) (version c))
                  filtered))"
proof -
  have "filter_exn (curseforge_item_matches E (version c)) filtered
      = Inr (filter (\<lambda>item. contains (fname item) (version c) \<or> contains (dname item) (version c)) filtered)"
    using assms(3) by (intro filter_exn_total) (simp add: curseforge_item_matches_names)
  with assms(1,2) show ?thesis by (simp add: curseforge_narrowed_def Let_def)
qed

lemma curseforge_narrowed_other:
  assumes "parse_constraints (strip (version_range dep)) = Inr cs"
    "\<not> (length cs = 1 \<and> op (hd cs) = ''='')"
  shows "curseforge_narrowed E dep filtered = Inr filtered"
proof -
  have "(cs \<noteq> [] \<and> (\<forall>c\<in>set cs. op c = ''='') \<and> length cs = 1) = False"
    using assms(2) by (cases cs) auto
  then show ?thesis
    unfolding curseforge_narrowed_def Let_def assms(1) by (simp only: sum.case if_False)
qed

text \<open>
  Claim C5. Let \<open>resolve_curseforge\<close> have come to the files that pass the filter by
  loader and runtime version, and let there be such files. When the range parses to
  exactly one constraint and its operator is \<open>=\<close>, the resolver chooses among the files
  whose \<open>fileName\<close> or \<open>displayName\<close> contains the bound, and when there is no such file it
  raises \<open>RuntimeError\<close>; it does not go back to the files before the narrowing. For every
  other list of constraints the resolver chooses among all the files that passed the
  filter, whatever the constraints are.
\<close>

theorem curseforge_exact_range_narrowing:
  "(opt_truthy (curseforge dep) \<and> list_all is_digit (opt_str (curseforge dep))
      \<and> curseforge_expected_loader_label E loader = Inr label
      \<and> response = Inr (JDict p) \<and> dict_get p ''data'' = JList data
      \<and> curseforge_filtered minecraft_version label data = filtered \<and> filtered \<noteq> []
      \<and> parse_constraints (strip (version_range dep)) = Inr [c] \<and> op c = ''=''
      \<and> (\<forall>item\<in>set filtered. text_or_empty E item ''fileName'' = Inr (fname item)
            \<and> text_or_empty E item ''displayName'' = Inr (dname item))
     \<longrightarrow> resolve_curseforge E dep loader minecraft_version policy response =
          (if filter (\<lambda>item. contains (fname item) (version c) \<or> contains (dname item) (version c))
                filtered = []
           then Inl (RuntimeError
              (''CurseForge dependency '' @ mod_id dep @ '' has exact range '' @ apostrophe
               @ version_range dep @ apostrophe @ '' but no fileName/displayName contains it''))
           else curseforge_chosen E dep policy
              (filter (\<lambda>item. contains (fname item) (version c) \<or> contains (dname item) (version c))
                 filtered)))
   \<and> (opt_truthy (curseforge dep) \<and> list_all is_digit (opt_str (curseforge dep))
      \<and> curseforge_expected_loader_label E loader = Inr label
      \<and> response = Inr (JDict p) \<and> dict_get p ''data'' = JList data
      \<and> curseforge_filtered minecraft_version label data = filtered \<and> filtered \<noteq> []
      \<and> parse_constraints (strip (version_range dep)) = Inr cs
      \<and> \<not> (length cs = 1 \<and> op (hd cs) = ''='')
     \<longrightarrow> resolve_curseforge E dep loader minecraft_version policy response
          = curseforge_chosen E dep policy filtered)"
proof (intro conjI impI)
  assume h: "opt_truthy (curseforge dep) \<and> list_all is_digit (opt_str (curseforge dep))
      \<and> curseforge_expected_loader_label E loader = Inr label
      \<and> response = Inr (JDict p) \<and> dict_get p ''data'' = JList data
      \<and> curseforge_filtered minecraft_version label data = filtered \<and> filtered \<noteq> []
      \<and> parse_constraints (strip (version_range dep)) = Inr [c] \<and> op c = ''=''
      \<and> (\<forall>item\<in>set filtered. text_or_empty E item ''fileName'' = Inr (fname item)
            \<and> text_or_empty E item ''displayName'' = Inr (dname item))"
  then have g: "opt_truthy (curseforge dep)" "list_all is_digit (opt_str (curseforge dep))"
    "curseforge_expected_loader_label E loader = Inr label"
    "response = Inr (JDict p)" "dict_get p ''data'' = JList data"
    "curseforge_filtered minecraft_version label data = filtered" "filtered \<noteq> []"
    by blast+
  note r = resolve_curseforge_reaches_narrowing [OF g, of policy]
  from h have a: "parse_constraints (strip (version_range dep)) = Inr [c]" "op c = ''=''"
    "\<forall>item\<in>set filtered. text_or_empty E item ''fileName'' = Inr (fname item)
        \<and> text_or_empty E item ''displayName'' = Inr (dname item)"
    by blast+
  note n = curseforge_narrowed_exact [OF a]
  show "resolve_curseforge E dep loader minecraft_version policy response =
          (if filter (\<lambda>item. contains (fname item) (version c) \<or> contains (dname item) (version c))
                filtered = []
           then Inl (RuntimeError
              (''CurseForge dependency '' @ mod_id dep @ '' has exact range '' @ apostrophe
               @ version_range dep @ apostrophe @ '' but no fileName/displayName contains it''))
           else curseforge_chosen E dep policy
              (filter (\<lambda>item. contains (fname item) (version c) \<or> contains (dname item) (version c))
                 filtered))"
    unfolding r n by (simp only: if_distrib [of "case_sum _ _"] sum.case)
next
  assume h: "opt_truthy (curseforge dep) \<and> list_all is_digit (opt_str (curseforge dep))
      \<and> curseforge_expected_loader_label E loader = Inr label
      \<and> response = Inr (JDict p) \<and> dict_get p ''data'' = JList data
      \<and> curseforge_filtered minecraft_version label data = filtered \<and> filtered \<noteq> []
      \<and> parse_constraints (strip (version_range dep)) = Inr cs
      \<and> \<not> (length cs = 1 \<and> op (hd cs) = ''='')"
  then have g: "opt_truthy (curseforge dep)" "list_all is_digit (opt_str (curseforge dep))"
    "curseforge_expected_loader_label E loader = Inr label"
    "response = Inr (JDict p)" "dict_get p ''data'' = JList data"
    "curseforge_filtered minecraft_version label data = filtered" "filtered \<noteq> []"
    by blast+
  note r = resolve_curseforge_reaches_narrowing [OF g, of policy]
  from h have n: "curseforge_narrowed E dep filtered = Inr filtered"
    by (intro curseforge_narrowed_other [of dep cs]) simp_all
  show "resolve_curseforge E dep loader minecraft_version policy response
          = curseforge_chosen E dep policy filtered"
    unfolding r n by simp
qed

theorem curseforge_exact_range_narrowing_witness:
  "opt_truthy (curseforge \<lparr>mod_id = ''jei'', version_range = ''1.2.3'', modrinth = None, curseforge = Some ''238222''\<rparr>)
   \<and> list_all is_digit (opt_str (curseforge \<lparr>mod_id = ''jei'', version_range = ''1.2.3'', modrinth = None, curseforge = Some ''238222''\<rparr>))
   \<and> curseforge_expected_loader_label \<lparr>fromisoformat = (\<lambda>s. if s = ''2024-01-01'' then Some (Naive 1) else if s = ''2024-02-01'' then Some (Naive 2) else if s = ''2024-03-01'' then Some (Naive 3) else None), repr_str = (\<lambda>s. apostrophe @ s @ apostrophe), str_container = (\<lambda>v. Inr []), json_dumps = id\<rparr> ''forge'' = Inr ''Forge''
   \<and> dict_get [(''data'', JList [JDict [(''id'', JInt 7), (''fileName'', JStr ''jei-1.2.3.jar''), (''displayName'', JStr ''JEI''), (''fileDate'', JStr ''2024-02-01''), (''gameVersions'', JList [JStr ''1.20.1'', JStr ''Forge''])],
        JDict [(''id'', JInt 8), (''fileName'', JStr ''jei-1.2.4.jar''), (''displayName'', JStr ''JEI''), (''fileDate'', JStr ''2024-03-01''), (''gameVersions'', JList [JStr ''1.20.1'', JStr ''Forge''])],
        JDict [(''id'', JInt 9), (''fileName'', JStr ''jei.jar''), (''displayName'', JStr ''JEI 1.2.3''), (''fileDate'', JStr ''2024-01-01''), (''gameVersions'', JList [JStr ''1.20.1'', JStr ''Forge''])],
        JDict [(''id'', JInt 10), (''fileName'', JStr ''jei-1.2.3-fabric.jar''), (''displayName'', JStr ''JEI''), (''fileDate'', JStr ''2024-03-01''), (''gameVersions'', JList [JStr ''1.20.1'', JStr ''Fabric''])]])] ''data''
     = JList [JDict [(''id'', JInt 7), (''fileName'', JStr ''jei-1.2.3.jar''), (''displayName'', JStr ''JEI''), (''fileDate'', JStr ''2024-02-01''), (''gameVersions'', JList [JStr ''1.20.1'', JStr ''Forge''])],
        JDict [(''id'', JInt 8), (''fileName'', JStr ''jei-1.2.4.jar''), (''displayName'', JStr ''JEI''), (''fileDate'', JStr ''2024-03-01''), (''gameVersions'', JList [JStr ''1.20.1'', JStr ''Forge''])],
        JDict [(''id'', JInt 9), (''fileName'', JStr ''jei.jar''), (''displayName'', JStr ''JEI 1.2.3''), (''fileDate'', JStr ''2024-01-01''), (''gameVersions'', JList [JStr ''1.20.1'', JStr ''Forge''])],
        JDict [(''id'', JInt 10), (''fileName'', JStr ''jei-1.2.3-fabric.jar''), (''displayName'', JStr ''JEI''), (''fileDate'', JStr ''2024-03-01''), (''gameVersions'', JList [JStr ''1.20.1'', JStr ''Fabric''])]]
   \<and> curseforge_filtered ''1.20.1'' ''Forge''
       [JDict [(''id'', JInt 7), (''fileName'', JStr ''jei-1.2.3.jar''), (''displayName'', JStr ''JEI''), (''fileDate'', JStr ''2024-02-01''), (''gameVersions'', JList [JStr ''1.20.1'', JStr ''Forge''])],
        JDict [(''id'', JInt 8), (''fileName'', JStr ''jei-1.2.4.jar''), (''displayName'', JStr ''JEI''), (''fileDate'', JStr ''2024-03-01''), (''gameVersions'', JList [JStr ''1.20.1'', JStr ''Forge''])],
        JDict [(''id'', JInt 9), (''fileName'', JStr ''jei.jar''), (''displayName'', JStr ''JEI 1.2.3''), (''fileDate'', JStr ''2024-01-01''), (''gameVersions'', JList [JStr ''1.20.1'', JStr ''Forge''])],
        JDict [(''id'', JInt 10), (''fileName'', JStr ''jei-1.2.3-fabric.jar''), (''displayName'', JStr ''JEI''), (''fileDate'', JStr ''2024-03-01''), (''gameVersions'', JList [JStr ''1.20.1'', JStr ''Fabric''])]]
     = [[(''id'', JInt 7), (''fileName'', JStr ''jei-1.2.3.jar''), (''displayName'', JStr ''JEI''), (''fileDate'', JStr ''2024-02-01''), (''gameVersions'', JList [JStr ''1.20.1'', JStr ''Forge''])],
      [(''id'', JInt 8), (''fileName'', JStr ''jei-1.2.4.jar''), (''displayName'', JStr ''JEI''), (''fileDate'', JStr ''2024-03-01''), (''gameVersions'', JList [JStr ''1.20.1'', JStr ''Forge''])],
      [(''id'', JInt 9), (''fileName'', JStr ''jei.jar''), (''displayName'', JStr ''JEI 1.2.3''), (''fileDate'', JStr ''2024-01-01''), (''gameVersions'', JList [JStr ''1.20.1'', JStr ''Forge''])]]
   \<and> parse_constraints (strip (version_range \<lparr>mod_id = ''jei'', version_range = ''1.2.3'', modrinth = None, curseforge = Some ''238222''\<rparr>)) = Inr [\<lparr>op = ''='', version = ''1.2.3''\<rparr>]
   \<and> parse_constraints (strip (version_range \<lparr>mod_id = ''jei'', version_range = ''9.9.9'', modrinth = None, curseforge = Some ''238222''\<rparr>)) = Inr [\<lparr>op = ''='', version = ''9.9.9''\<rparr>]
   \<and> parse_constraints (strip (version_range \<lparr>mod_id = ''jei'', version_range = ''>=5.0'', modrinth = None, curseforge = Some ''238222''\<rparr>)) = Inr [\<lparr>op = ''>='', version = ''5.0''\<rparr>]
   \<and> list_all (\<lambda>item. text_or_empty \<lparr>fromisoformat = (\<lambda>s. if s = ''2024-01-01'' then Some (Naive 1) else if s = ''2024-02-01'' then Some (Naive 2) else if s = ''2024-03-01'' then Some (Naive 3) else None), repr_str = (\<lambda>s. apostrophe @ s @ apostrophe), str_container = (\<lambda>v. Inr []), json_dumps = id\<rparr> item ''fileName'' = Inr ((\<lambda>item. case dict_get item ''fileName'' of JStr s \<Rightarrow> s | _ \<Rightarrow> []) item)
        \<and> text_or_empty \<lparr>fromisoformat = (\<lambda>s. if s = ''2024-01-01'' then Some (Naive 1) else if s = ''2024-02-01'' then Some (Naive 2) else if s = ''2024-03-01'' then Some (Naive 3) else None), repr_str = (\<lambda>s. apostrophe @ s @ apostrophe), str_container = (\<lambda>v. Inr []), json_dumps = id\<rparr> item ''displayName'' = Inr ((\<lambda>item. case dict_get item ''displayName'' of JStr s \<Rightarrow> s | _ \<Rightarrow> []) item))
       [[(''id'', JInt 7), (''fileName'', JStr ''jei-1.2.3.jar''), (''displayName'', JStr ''JEI''), (''fileDate'', JStr ''2024-02-01''), (''gameVersions'', JList [JStr ''1.20.1'', JStr ''Forge''])],
      [(''id'', JInt 8), (''fileName'', JStr ''jei-1.2.4.jar''), (''displayName'', JStr ''JEI''), (''fileDate'', JStr ''2024-03-01''), (''gameVersions'', JList [JStr ''1.20.1'', JStr ''Forge''])],
      [(''id'', JInt 9), (''fileName'', JStr ''jei.jar''), (''displayName'', JStr ''JEI 1.2.3''), (''fileDate'', JStr ''2024-01-01''), (''gameVersions'', JList [JStr ''1.20.1'', JStr ''Forge''])]]
   \<and> resolve_curseforge \<lparr>fromisoformat = (\<lambda>s. if s = ''2024-01-01'' then Some (Naive 1) else if s = ''2024-02-01'' then Some (Naive 2) else if s = ''2024-03-01'' then Some (Naive 3) else None), repr_str = (\<lambda>s. apostrophe @ s @ apostrophe), str_container = (\<lambda>v. Inr []), json_dumps = id\<rparr>
      \<lparr>mod_id = ''jei'', version_range = ''1.2.3'', modrinth = None, curseforge = Some ''238222''\<rparr>
      ''forge'' ''1.20.1'' ''max''
      (Inr (JDict [(''data'', JList [JDict [(''id'', JInt 7), (''fileName'', JStr ''jei-1.2.3.jar''), (''displayName'', JStr ''JEI''), (''fileDate'', JStr ''2024-02-01''), (''gameVersions'', JList [JStr ''1.20.1'', JStr ''Forge''])],
        JDict [(''id'', JInt 8), (''fileName'', JStr ''jei-1.2.4.jar''), (''displayName'', JStr ''JEI''), (''fileDate'', JStr ''2024-03-01''), (''gameVersions'', JList [JStr ''1.20.1'', JStr ''Forge''])],
        JDict [(''id'', JInt 9), (''fileName'', JStr ''jei.jar''), (''displayName'', JStr ''JEI 1.2.3''), (''fileDate'', JStr ''2024-01-01''), (''gameVersions'', JList [JStr ''1.20.1'', JStr ''Forge''])],
        JDict [(''id'', JInt 10), (''fileName'', JStr ''jei-1.2.3-fabric.jar''), (''displayName'', JStr ''JEI''), (''fileDate'', JStr ''2024-03-01''), (''gameVersions'', JList [JStr ''1.20.1'', JStr ''Fabric''])]])]))
     = Inr \<lparr>source_type = ''curseforge'', name = ''jei'', modrinth_id = None, modrinth_version = None, curseforge_id = Some ''238222'', curseforge_file_id = Some ''7''\<rparr>
   \<and> resolve_curseforge \<lparr>fromisoformat = (\<lambda>s. if s = ''2024-01-01'' then Some (Naive 1) else if s = ''2024-02-01'' then Some (Naive 2) else if s = ''2024-03-01'' then Some (Naive 3) else None), repr_str = (\<lambda>s. apostrophe @ s @ apostrophe), str_container = (\<lambda>v. Inr []), json_dumps = id\<rparr>
      \<lparr>mod_id = ''jei'', version_range = ''1.2.3'', modrinth = None, curseforge = Some ''238222''\<rparr>
      ''forge'' ''1.20.1'' ''min''
      (Inr (JDict [(''data'', JList [JDict [(''id'', JInt 7), (''fileName'', JStr ''jei-1.2.3.jar''), (''displayName'', JStr ''JEI''), (''fileDate'', JStr ''2024-02-01''), (''gameVersions'', JList [JStr ''1.20.1'', JStr ''Forge''])],
        JDict [(''id'', JInt 8), (''fileName'', JStr ''jei-1.2.4.jar''), (''displayName'', JStr ''JEI''), (''fileDate'', JStr ''2024-03-01''), (''gameVersions'', JList [JStr ''1.20.1'', JStr ''Forge''])],
        JDict [(''id'', JInt 9), (''fileName'', JStr ''jei.jar''), (''displayName'', JStr ''JEI 1.2.3''), (''fileDate'', JStr ''2024-01-01''), (''gameVersions'', JList [JStr ''1.20.1'', JStr ''Forge''])],
        JDict [(''id'', JInt 10), (''fileName'', JStr ''jei-1.2.3-fabric.jar''), (''displayName'', JStr ''JEI''), (''fileDate'', JStr ''2024-03-01''), (''gameVersions'', JList [JStr ''1.20.1'', JStr ''Fabric''])]])]))
     = Inr \<lparr>source_type = ''curseforge'', name = ''jei'', modrinth_id = None, modrinth_version = None, curseforge_id = Some ''238222'', curseforge_file_id = Some ''9''\<rparr>
   \<and> resolve_curseforge \<lparr>fromisoformat = (\<lambda>s. if s = ''2024-01-01'' then Some (Naive 1) else if s = ''2024-02-01'' then Some (Naive 2) else if s = ''2024-03-01'' then Some (Naive 3) else None), repr_str = (\<lambda>s. apostrophe @ s @ apostrophe), str_container = (\<lambda>v. Inr []), json_dumps = id\<rparr>
      \<lparr>mod_id = ''jei'', version_range = ''9.9.9'', modrinth = None, curseforge = Some ''238222''\<rparr>
      ''forge'' ''1.20.1'' ''max''
      (Inr (JDict [(''data'', JList [JDict [(''id'', JInt 7), (''fileName'', JStr ''jei-1.2.3.jar''), (''displayName'', JStr ''JEI''), (''fileDate'', JStr ''2024-02-01''), (''gameVersions'', JList [JStr ''1.20.1'', JStr ''Forge''])],
        JDict [(''id'', JInt 8), (''fileName'', JStr ''jei-1.2.4.jar''), (''displayName'', JStr ''JEI''), (''fileDate'', JStr ''2024-03-01''), (''gameVersions'', JList [JStr ''1.20.1'', JStr ''Forge''])],
        JDict [(''id'', JInt 9), (''fileName'', JStr ''jei.jar''), (''displayName'', JStr ''JEI 1.2.3''), (''fileDate'', JStr ''2024-01-01''), (''gameVersions'', JList [JStr ''1.20.1'', JStr ''Forge''])],
        JDict [(''id'', JInt 10), (''fileName'', JStr ''jei-1.2.3-fabric.jar''), (''displayName'', JStr ''JEI''), (''fileDate'', JStr ''2024-03-01''), (''gameVersions'', JList [JStr ''1.20.1'', JStr ''Fabric''])]])]))
     = Inl (RuntimeError (''CurseForge dependency jei has exact range '' @ apostrophe @ ''9.9.9'' @ apostrophe @ '' but no fileName/displayName contains it''))
   \<and> resolve_curseforge \<lparr>fromisoformat = (\<lambda>s. if s = ''2024-01-01'' then Some (Naive 1) else if s = ''2024-02-01'' then Some (Naive 2) else if s = ''2024-03-01'' then Some (Naive 3) else None), repr_str = (\<lambda>s. apostrophe @ s @ apostrophe), str_container = (\<lambda>v. Inr []), json_dumps = id\<rparr>
      \<lparr>mod_id = ''jei'', version_range = ''>=5.0'', modrinth = None, curseforge = Some ''238222''\<rparr>
      ''forge'' ''1.20.1'' ''max''
      (Inr (JDict [(''data'', JList [JDict [(''id'', JInt 7), (''fileName'', JStr ''jei-1.2.3.jar''), (''displayName'', JStr ''JEI''), (''fileDate'', JStr ''2024-02-01''), (''gameVersions'', JList [JStr ''1.20.1'', JStr ''Forge''])],
        JDict [(''id'', JInt 8), (''fileName'', JStr ''jei-1.2.4.jar''), (''displayName'', JStr ''JEI''), (''fileDate'', JStr ''2024-03-01''), (''gameVersions'', JList [JStr ''1.20.1'', JStr ''Forge''])],
        JDict [(''id'', JInt 9), (''fileName'', JStr ''jei.jar''), (''displayName'', JStr ''JEI 1.2.3''), (''fileDate'', JStr ''2024-01-01''), (''gameVersions'', JList [JStr ''1.20.1'', JStr ''Forge''])],
        JDict [(''id'', JInt 10), (''fileName'', JStr ''jei-1.2.3-fabric.jar''), (''displayName'', JStr ''JEI''), (''fileDate'', JStr ''2024-03-01''), (''gameVersions'', JList [JStr ''1.20.1'', JStr ''Fabric''])]])]))
     = Inr \<lparr>source_type = ''curseforge'', name = ''jei'', modrinth_id = None, modrinth_version = None, curseforge_id = Some ''238222'', curseforge_file_id = Some ''8''\<rparr>"
proof -
  let ?E = "\<lparr>fromisoformat = (\<lambda>s. if s = ''2024-01-01'' then Some (Naive 1) else if s = ''2024-02-01'' then Some (Naive 2) else if s = ''2024-03-01'' then Some (Naive 3) else None), repr_str = (\<lambda>s. apostrophe @ s @ apostrophe), str_container = (\<lambda>v. Inr []), json_dumps = id\<rparr>"
  let ?f7 = "[(''id'', JInt 7), (''fileName'', JStr ''jei-1.2.3.jar''), (''displayName'', JStr ''JEI''), (''fileDate'', JStr ''2024-02-01''), (''gameVersions'', JList [JStr ''1.20.1'', JStr ''Forge''])]"
  let ?f8 = "[(''id'', JInt 8), (''fileName'', JStr ''jei-1.2.4.jar''), (''displayName'', JStr ''JEI''), (''fileDate'', JStr ''2024-03-01''), (''gameVersions'', JList [JStr ''1.20.1'', JStr ''Forge''])]"
  let ?f9 = "[(''id'', JInt 9), (''fileName'', JStr ''jei.jar''), (''displayName'', JStr ''JEI 1.2.3''), (''fileDate'', JStr ''2024-01-01''), (''gameVersions'', JList [JStr ''1.20.1'', JStr ''Forge''])]"
  let ?f10 = "[(''id'', JInt 10), (''fileName'', JStr ''jei-1.2.3-fabric.jar''), (''displayName'', JStr ''JEI''), (''fileDate'', JStr ''2024-03-01''), (''gameVersions'', JList [JStr ''1.20.1'', JStr ''Fabric''])]"
  let ?data = "[JDict ?f7, JDict ?f8, JDict ?f9, JDict ?f10]"
  let ?p = "[(''data'', JList ?data)]"
  let ?filtered = "[?f7, ?f8, ?f9]"
  let ?fname = "(\<lambda>item. case dict_get item ''fileName'' of JStr s \<Rightarrow> s | _ \<Rightarrow> [])"
  let ?dname = "(\<lambda>item. case dict_get item ''displayName'' of JStr s \<Rightarrow> s | _ \<Rightarrow> [])"
  have a1: "opt_truthy (curseforge \<lparr>mod_id = ''jei'', version_range = ''1.2.3'', modrinth = None, curseforge = Some ''238222''\<rparr>)" by code_simp
  have a2: "list_all is_digit (opt_str (curseforge \<lparr>mod_id = ''jei'', version_range = ''1.2.3'', modrinth = None, curseforge = Some ''238222''\<rparr>))" by code_simp
  have lab: "curseforge_expected_loader_label ?E ''forge'' = Inr ''Forge''" by code_simp
  have dat: "dict_get ?p ''data'' = JList ?data" by code_simp
  have fil: "curseforge_filtered ''1.20.1'' ''Forge'' ?data = ?filtered" by code_simp
  have ne: "?filtered \<noteq> []" by simp
  have pc123: "parse_constraints (strip (version_range \<lparr>mod_id = ''jei'', version_range = ''1.2.3'', modrinth = None, curseforge = Some ''238222''\<rparr>)) = Inr [\<lparr>op = ''='', version = ''1.2.3''\<rparr>]" by code_simp
  have pc999: "parse_constraints (strip (version_range \<lparr>mod_id = ''jei'', version_range = ''9.9.9'', modrinth = None, curseforge = Some ''238222''\<rparr>)) = Inr [\<lparr>op = ''='', version = ''9.9.9''\<rparr>]" by code_simp
  have pc5: "parse_constraints (strip (version_range \<lparr>mod_id = ''jei'', version_range = ''>=5.0'', modrinth = None, curseforge = Some ''238222''\<rparr>)) = Inr [\<lparr>op = ''>='', version = ''5.0''\<rparr>]" by code_simp
  have names_all: "list_all (\<lambda>item. text_or_empty ?E item ''fileName'' = Inr (?fname item)
        \<and> text_or_empty ?E item ''displayName'' = Inr (?dname item)) ?filtered"
    by code_simp
  then have names: "\<forall>item\<in>set ?filtered. text_or_empty ?E item ''fileName'' = Inr (?fname item)
        \<and> text_or_empty ?E item ''displayName'' = Inr (?dname item)"
    by (simp only: list_all_iff)
  have r1: "resolve_curseforge ?E \<lparr>mod_id = ''jei'', version_range = ''1.2.3'', modrinth = None, curseforge = Some ''238222''\<rparr> ''forge'' ''1.20.1'' ''max'' (Inr (JDict ?p)) = Inr \<lparr>source_type = ''curseforge'', name = ''jei'', modrinth_id = None, modrinth_version = None, curseforge_id = Some ''238222'', curseforge_file_id = Some ''7''\<rparr>"
  proof -
    have h: "opt_truthy (curseforge \<lparr>mod_id = ''jei'', version_range = ''1.2.3'', modrinth = None, curseforge = Some ''238222''\<rparr>) \<and> list_all is_digit (opt_str (curseforge \<lparr>mod_id = ''jei'', version_range = ''1.2.3'', modrinth = None, curseforge = Some ''238222''\<rparr>))
        \<and> curseforge_expected_loader_label ?E ''forge'' = Inr ''Forge''
        \<and> (Inr (JDict ?p) :: exn + json) = Inr (JDict ?p) \<and> dict_get ?p ''data'' = JList ?data
        \<and> curseforge_filtered ''1.20.1'' ''Forge'' ?data = ?filtered \<and> ?filtered \<noteq> []
        \<and> parse_constraints (strip (version_range \<lparr>mod_id = ''jei'', version_range = ''1.2.3'', modrinth = None, curseforge = Some ''238222''\<rparr>)) = Inr [\<lparr>op = ''='', version = ''1.2.3''\<rparr>]
        \<and> op \<lparr>op = ''='', version = ''1.2.3''\<rparr> = ''=''
        \<and> (\<forall>item\<in>set ?filtered. text_or_empty ?E item ''fileName'' = Inr (?fname item)
              \<and> text_or_empty ?E item ''displayName'' = Inr (?dname item))"
      using a1 a2 lab dat fil ne pc123 names by simp
    have v: "(if filter (\<lambda>item. contains (?fname item) (version \<lparr>op = ''='', version = ''1.2.3''\<rparr>) \<or> contains (?dname item) (version \<lparr>op = ''='', version = ''1.2.3''\<rparr>)) ?filtered = []
           then Inl (RuntimeError
              (''CurseForge dependency '' @ mod_id \<lparr>mod_id = ''jei'', version_range = ''1.2.3'', modrinth = None, curseforge = Some ''238222''\<rparr> @ '' has exact range '' @ apostrophe
               @ version_range \<lparr>mod_id = ''jei'', version_range = ''1.2.3'', modrinth = None, curseforge = Some ''238222''\<rparr> @ apostrophe @ '' but no fileName/displayName contains it''))
           else curseforge_chosen ?E \<lparr>mod_id = ''jei'', version_range = ''1.2.3'', modrinth = None, curseforge = Some ''238222''\<rparr> ''max''
              (filter (\<lambda>item. contains (?fname item) (version \<lparr>op = ''='', version = ''1.2.3''\<rparr>) \<or> contains (?dname item) (version \<lparr>op = ''='', version = ''1.2.3''\<rparr>)) ?filtered))
        = Inr \<lparr>source_type = ''curseforge'', name = ''jei'', modrinth_id = None, modrinth_version = None, curseforge_id = Some ''238222'', curseforge_file_id = Some ''7''\<rparr>"
      by code_simp
    from curseforge_exact_range_narrowing [where E = ?E and dep = "\<lparr>mod_id = ''jei'', version_range = ''1.2.3'', modrinth = None, curseforge = Some ''238222''\<rparr>" and loader = "''forge''"
        and label = "''Forge''" and response = "Inr (JDict ?p)" and p = ?p and data = ?data
        and minecraft_version = "''1.20.1''" and filtered = ?filtered and c = "\<lparr>op = ''='', version = ''1.2.3''\<rparr>"
        and fname = ?fname and dname = ?dname and policy = "''max''", THEN conjunct1, THEN mp, OF h]
    show ?thesis unfolding v .
  qed
  have r2: "resolve_curseforge ?E \<lparr>mod_id = ''jei'', version_range = ''1.2.3'', modrinth = None, curseforge = Some ''238222''\<rparr> ''forge'' ''1.20.1'' ''min'' (Inr (JDict ?p)) = Inr \<lparr>source_type = ''curseforge'', name = ''jei'', modrinth_id = None, modrinth_version = None, curseforge_id = Some ''238222'', curseforge_file_id = Some ''9''\<rparr>"
  proof -
    have h: "opt_truthy (curseforge \<lparr>mod_id = ''jei'', version_range = ''1.2.3'', modrinth = None, curseforge = Some ''238222''\<rparr>) \<and> list_all is_digit (opt_str (curseforge \<lparr>mod_id = ''jei'', version_range = ''1.2.3'', modrinth = None, curseforge = Some ''238222''\<rparr>))
        \<and> curseforge_expected_loader_label ?E ''forge'' = Inr ''Forge''
        \<and> (Inr (JDict ?p) :: exn + json) = Inr (JDict ?p) \<and> dict_get ?p ''data'' = JList ?data
        \<and> curseforge_filtered ''1.20.1'' ''Forge'' ?data = ?filtered \<and> ?filtered \<noteq> []
        \<and> parse_constraints (strip (version_range \<lparr>mod_id = ''jei'', version_range = ''1.2.3'', modrinth = None, curseforge = Some ''238222''\<rparr>)) = Inr [\<lparr>op = ''='', version = ''1.2.3''\<rparr>]
        \<and> op \<lparr>op = ''='', version = ''1.2.3''\<rparr> = ''=''
        \<and> (\<forall>item\<in>set ?filtered. text_or_empty ?E item ''fileName'' = Inr (?fname item)
              \<and> text_or_empty ?E item ''displayName'' = Inr (?dname item))"
      using a1 a2 lab dat fil ne pc123 names by simp
    have v: "(if filter (\<lambda>item. contains (?fname item) (version \<lparr>op = ''='', version = ''1.2.3''\<rparr>) \<or> contains (?dname item) (version \<lparr>op = ''='', version = ''1.2.3''\<rparr>)) ?filtered = []
           then Inl (RuntimeError
              (''CurseForge dependency '' @ mod_id \<lparr>mod_id = ''jei'', version_range = ''1.2.3'', modrinth = None, curseforge = Some ''238222''\<rparr> @ '' has exact range '' @ apostrophe
               @ version_range \<lparr>mod_id = ''jei'', version_range = ''1.2.3'', modrinth = None, curseforge = Some ''238222''\<rparr> @ apostrophe @ '' but no fileName/displayName contains it''))
           else curseforge_chosen ?E \<lparr>mod_id = ''jei'', version_range = ''1.2.3'', modrinth = None, curseforge = Some ''238222''\<rparr> ''min''
              (filter (\<lambda>item. contains (?fname item) (version \<lparr>op = ''='', version = ''1.2.3''\<rparr>) \<or> contains (?dname item) (version \<lparr>op = ''='', version = ''1.2.3''\<rparr>)) ?filtered))
        = Inr \<lparr>source_type = ''curseforge'', name = ''jei'', modrinth_id = None, modrinth_version = None, curseforge_id = Some ''238222'', curseforge_file_id = Some ''9''\<rparr>"
      by code_simp
    from curseforge_exact_range_narrowing [where E = ?E and dep = "\<lparr>mod_id = ''jei'', version_range = ''1.2.3'', modrinth = None, curseforge = Some ''238222''\<rparr>" and loader = "''forge''"
        and label = "''Forge''" and response = "Inr (JDict ?p)" and p = ?p and data = ?data
        and minecraft_version = "''1.20.1''" and filtered = ?filtered and c = "\<lparr>op = ''='', version = ''1.2.3''\<rparr>"
        and fname = ?fname and dname = ?dname and policy = "''min''", THEN conjunct1, THEN mp, OF h]
    show ?thesis unfolding v .
  qed
  have r3: "resolve_curseforge ?E \<lparr>mod_id = ''jei'', version_range = ''9.9.9'', modrinth = None, curseforge = Some ''238222''\<rparr> ''forge'' ''1.20.1'' ''max'' (Inr (JDict ?p)) = Inl (RuntimeError (''CurseForge dependency jei has exact range '' @ apostrophe @ ''9.9.9'' @ apostrophe @ '' but no fileName/displayName contains it''))"
  proof -
    have h: "opt_truthy (curseforge \<lparr>mod_id = ''jei'', version_range = ''9.9.9'', modrinth = None, curseforge = Some ''238222''\<rparr>) \<and> list_all is_digit (opt_str (curseforge \<lparr>mod_id = ''jei'', version_range = ''9.9.9'', modrinth = None, curseforge = Some ''238222''\<rparr>))
        \<and> curseforge_expected_loader_label ?E ''forge'' = Inr ''Forge''
        \<and> (Inr (JDict ?p) :: exn + json) = Inr (JDict ?p) \<and> dict_get ?p ''data'' = JList ?data
        \<and> curseforge_filtered ''1.20.1'' ''Forge'' ?data = ?filtered \<and> ?filtered \<noteq> []
        \<and> parse_constraints (strip (version_range \<lparr>mod_id = ''jei'', version_range = ''9.9.9'', modrinth = None, curseforge = Some ''238222''\<rparr>)) = Inr [\<lparr>op = ''='', version = ''9.9.9''\<rparr>]
        \<and> op \<lparr>op = ''='', version = ''9.9.9''\<rparr> = ''=''
        \<and> (\<forall>item\<in>set ?filtered. text_or_empty ?E item ''fileName'' = Inr (?fname item)
              \<and> text_or_empty ?E item ''displayName'' = Inr (?dname item))"
      using a1 a2 lab dat fil ne pc999 names by simp
    have v: "(if filter (\<lambda>item. contains (?fname item) (version \<lparr>op = ''='', version = ''9.9.9''\<rparr>) \<or> contains (?dname item) (version \<lparr>op = ''='', version = ''9.9.9''\<rparr>)) ?filtered = []
           then Inl (RuntimeError
              (''CurseForge dependency '' @ mod_id \<lparr>mod_id = ''jei'', version_range = ''9.9.9'', modrinth = None, curseforge = Some ''238222''\<rparr> @ '' has exact range '' @ apostrophe
               @ version_range \<lparr>mod_id = ''jei'', version_range = ''9.9.9'', modrinth = None, curseforge = Some ''238222''\<rparr> @ apostrophe @ '' but no fileName/displayName contains it''))
           else curseforge_chosen ?E \<lparr>mod_id = ''jei'', version_range = ''9.9.9'', modrinth = None, curseforge = Some ''238222''\<rparr> ''max''
              (filter (\<lambda>item. contains (?fname item) (version \<lparr>op = ''='', version = ''9.9.9''\<rparr>) \<or> contains (?dname item) (version \<lparr>op = ''='', version = ''9.9.9''\<rparr>)) ?filtered))
        = Inl (RuntimeError (''CurseForge dependency jei has exact range '' @ apostrophe @ ''9.9.9'' @ apostrophe @ '' but no fileName/displayName contains it''))"
      by code_simp
    from curseforge_exact_range_narrowing [where E = ?E and dep = "\<lparr>mod_id = ''jei'', version_range = ''9.9.9'', modrinth = None, curseforge = Some ''238222''\<rparr>" and loader = "''forge''"
        and label = "''Forge''" and response = "Inr (JDict ?p)" and p = ?p and data = ?data
        and minecraft_version = "''1.20.1''" and filtered = ?filtered and c = "\<lparr>op = ''='', version = ''9.9.9''\<rparr>"
        and fname = ?fname and dname = ?dname and policy = "''max''", THEN conjunct1, THEN mp, OF h]
    show ?thesis unfolding v .
  qed
  have r4: "resolve_curseforge ?E \<lparr>mod_id = ''jei'', version_range = ''>=5.0'', modrinth = None, curseforge = Some ''238222''\<rparr> ''forge'' ''1.20.1'' ''max'' (Inr (JDict ?p)) = Inr \<lparr>source_type = ''curseforge'', name = ''jei'', modrinth_id = None, modrinth_version = None, curseforge_id = Some ''238222'', curseforge_file_id = Some ''8''\<rparr>"
  proof -
    have h: "opt_truthy (curseforge \<lparr>mod_id = ''jei'', version_range = ''>=5.0'', modrinth = None, curseforge = Some ''238222''\<rparr>) \<and> list_all is_digit (opt_str (curseforge \<lparr>mod_id = ''jei'', version_range = ''>=5.0'', modrinth = None, curseforge = Some ''238222''\<rparr>))
        \<and> curseforge_expected_loader_label ?E ''forge'' = Inr ''Forge''
        \<and> (Inr (JDict ?p) :: exn + json) = Inr (JDict ?p) \<and> dict_get ?p ''data'' = JList ?data
        \<and> curseforge_filtered ''1.20.1'' ''Forge'' ?data = ?filtered \<and> ?filtered \<noteq> []
        \<and> parse_constraints (strip (version_range \<lparr>mod_id = ''jei'', version_range = ''>=5.0'', modrinth = None, curseforge = Some ''238222''\<rparr>)) = Inr [\<lparr>op = ''>='', version = ''5.0''\<rparr>]
        \<and> \<not> (length [\<lparr>op = ''>='', version = ''5.0''\<rparr>] = 1 \<and> op (hd [\<lparr>op = ''>='', version = ''5.0''\<rparr>]) = ''='')"
      using a1 a2 lab dat fil ne pc5 by simp
    have v: "curseforge_chosen ?E \<lparr>mod_id = ''jei'', version_range = ''>=5.0'', modrinth = None, curseforge = Some ''238222''\<rparr> ''max'' ?filtered = Inr \<lparr>source_type = ''curseforge'', name = ''jei'', modrinth_id = None, modrinth_version = None, curseforge_id = Some ''238222'', curseforge_file_id = Some ''8''\<rparr>"
      by code_simp
    from curseforge_exact_range_narrowing [where E = ?E and dep = "\<lparr>mod_id = ''jei'', version_range = ''>=5.0'', modrinth = None, curseforge = Some ''238222''\<rparr>" and loader = "''forge''"
        and label = "''Forge''" and response = "Inr (JDict ?p)" and p = ?p and data = ?data
        and minecraft_version = "''1.20.1''" and filtered = ?filtered and cs = "[\<lparr>op = ''>='', version = ''5.0''\<rparr>]"
        and policy = "''max''", THEN conjunct2, THEN mp, OF h]
    show ?thesis unfolding v .
  qed
  from a1 a2 lab dat fil pc123 pc999 pc5 names_all r1 r2 r3 r4 show ?thesis by (intro conjI)
qed

end
